theory Spec2Isabelle
  imports Complex_Main "HOL-Library.AList"
begin

chapter \<open>KS Wings: a shallow embedding of the host agent\<close>

text \<open>
  The agent is a Node.js program.  Its functions are embedded as HOL functions:
  mutable objects and the files they touch become explicit state that is passed and
  returned, a rejected promise or a thrown exception becomes the \<open>Inl\<close> branch of a
  sum, the answers of the container runtime, of the network and of the file system
  are inputs of the model, and every object used as a dictionary is a map.  A string
  is the list of the bytes of its UTF-8 encoding; numbers that the code only compares or counts are integers, and
  the two places that divide (the uptime and the volume size) use reals.
\<close>

section \<open>The JavaScript primitives the code relies on\<close>

subsection \<open>Numbers and text\<close>

text \<open>The remainder operator \<^verbatim>\<open>%\<close> truncates towards zero.\<close>

definition js_trunc :: "real \<Rightarrow> int" where
  "js_trunc x = (if 0 \<le> x then \<lfloor>x\<rfloor> else \<lceil>x\<rceil>)"

definition js_rem :: "real \<Rightarrow> real \<Rightarrow> real" where
  "js_rem x y = x - y * of_int (js_trunc (x / y))"

text \<open>Decimal rendering of an integer, as a template literal prints it.\<close>

fun show_nat :: "nat \<Rightarrow> string" where
  "show_nat n =
     (if n < 10 then [''0123456789'' ! n]
      else show_nat (n div 10) @ [''0123456789'' ! (n mod 10)])"

declare show_nat.simps [simp del]

definition show_int :: "int \<Rightarrow> string" where
  "show_int i = (if i < 0 then CHR ''-'' # show_nat (nat (- i)) else show_nat (nat i))"

text \<open>\<^verbatim>\<open>Array.prototype.join\<close> and \<^verbatim>\<open>String.prototype.split\<close> on a one-character separator.\<close>

fun join :: "string \<Rightarrow> string list \<Rightarrow> string" where
  "join sep [] = []"
| "join sep [x] = x"
| "join sep (x # y # ys) = x @ sep @ join sep (y # ys)"

fun split_on :: "char \<Rightarrow> string \<Rightarrow> string list" where
  "split_on c [] = [[]]"
| "split_on c (x # xs) =
     (if x = c then [] # split_on c xs
      else (case split_on c xs of [] \<Rightarrow> [[x]] | w # ws \<Rightarrow> (x # w) # ws))"

text \<open>
  White space as \<^verbatim>\<open>trim\<close> and \<^verbatim>\<open>parseInt\<close> skip it: the characters the language
  calls \<^verbatim>\<open>WhiteSpace\<close> and \<^verbatim>\<open>LineTerminator\<close>, each as the bytes of its UTF-8
  encoding.  These are U+0009 to U+000D, U+0020, U+00A0, U+1680, U+2000 to U+200A,
  U+2028, U+2029, U+202F, U+205F, U+3000 and U+FEFF.
\<close>

definition white_space :: "string list" where
  "white_space =
     [[CHR 0x09], [CHR 0x0A], [CHR 0x0B], [CHR 0x0C], [CHR 0x0D], [CHR 0x20],
      [CHR 0xC2, CHR 0xA0],
      [CHR 0xE1, CHR 0x9A, CHR 0x80],
      [CHR 0xE2, CHR 0x80, CHR 0x80], [CHR 0xE2, CHR 0x80, CHR 0x81],
      [CHR 0xE2, CHR 0x80, CHR 0x82], [CHR 0xE2, CHR 0x80, CHR 0x83],
      [CHR 0xE2, CHR 0x80, CHR 0x84], [CHR 0xE2, CHR 0x80, CHR 0x85],
      [CHR 0xE2, CHR 0x80, CHR 0x86], [CHR 0xE2, CHR 0x80, CHR 0x87],
      [CHR 0xE2, CHR 0x80, CHR 0x88], [CHR 0xE2, CHR 0x80, CHR 0x89],
      [CHR 0xE2, CHR 0x80, CHR 0x8A],
      [CHR 0xE2, CHR 0x80, CHR 0xA8], [CHR 0xE2, CHR 0x80, CHR 0xA9],
      [CHR 0xE2, CHR 0x80, CHR 0xAF],
      [CHR 0xE2, CHR 0x81, CHR 0x9F],
      [CHR 0xE3, CHR 0x80, CHR 0x80],
      [CHR 0xEF, CHR 0xBB, CHR 0xBF]]"

text \<open>Removing from the front of a string every leading occurrence of the given patterns.\<close>

function strip :: "string list \<Rightarrow> string \<Rightarrow> string" where
  "strip pats s =
     (case find (\<lambda>w. w \<noteq> [] \<and> take (length w) s = w) pats of
        None \<Rightarrow> s
      | Some w \<Rightarrow> strip pats (drop (length w) s))"
  by pat_completeness auto
termination
proof (relation "measure (\<lambda>(pats, s). length s)")
  fix pats :: "string list" and s w :: string
  assume "find (\<lambda>w. w \<noteq> [] \<and> take (length w) s = w) pats = Some w"
  then have "w \<noteq> []" and "take (length w) s = w" by (auto simp: find_Some_iff)
  have "0 < length w" using \<open>w \<noteq> []\<close> by simp
  moreover have "length w \<le> length s"
    using \<open>take (length w) s = w\<close> by (metis length_take min.cobounded1)
  ultimately have "length s - length w < length s" by arith
  then show "((pats, drop (length w) s), (pats, s)) \<in> measure (\<lambda>(pats, s). length s)" by simp
qed simp

declare strip.simps [simp del]

definition trim :: "string \<Rightarrow> string" where
  "trim s = rev (strip (map rev white_space) (rev (strip white_space s)))"

definition is_digit :: "char \<Rightarrow> bool" where
  "is_digit c = (c \<in> set ''0123456789'')"

definition digit_val :: "char \<Rightarrow> nat" where
  "digit_val c = of_char c - 48"

text \<open>
  \<^verbatim>\<open>parseInt(s, 10)\<close>: leading white space is skipped, one sign is read, and the longest
  run of decimal digits that follows is the value; with no digit the result is
  \<^verbatim>\<open>NaN\<close>, here \<open>None\<close>.  (For more than twenty digits JavaScript rounds the value
  to a double; the rounded value stays on the same side of every bound used below.)
\<close>

definition digits_val :: "string \<Rightarrow> nat" where
  "digits_val ds = foldl (\<lambda>a d. 10 * a + digit_val d) 0 ds"

definition parseInt :: "string \<Rightarrow> int option" where
  "parseInt s =
     (let t = strip white_space s;
          neg = (case t of [] \<Rightarrow> False | c # _ \<Rightarrow> c = CHR ''-'');
          u = (case t of [] \<Rightarrow> [] | c # r \<Rightarrow> if c = CHR ''-'' \<or> c = CHR ''+'' then r else t);
          z = takeWhile is_digit u
      in if z = [] then None
         else Some (if neg then - int (digits_val z) else int (digits_val z)))"

subsection \<open>JSON values and \<^verbatim>\<open>JSON.parse\<close>\<close>

text \<open>
  A parsed JSON value.  A number keeps the text it was written with: the code below
  only asks whether a number is zero.  An object keeps its properties in the order
  JavaScript enumerates string keys, the order of first insertion.
\<close>

datatype json =
    JNull
  | JBool bool
  | JNum string
  | JStr string
  | JArr "json list"
  | JObj "(string \<times> json) list"

text \<open>Truthiness, as \<^verbatim>\<open>if (v)\<close> and \<^verbatim>\<open>a && b\<close> test a value.\<close>

fun js_truthy :: "json \<Rightarrow> bool" where
  "js_truthy JNull = False"
| "js_truthy (JBool b) = b"
| "js_truthy (JNum n) = (\<exists>c \<in> set (takeWhile (\<lambda>c. c \<noteq> CHR ''e'' \<and> c \<noteq> CHR ''E'') n). c \<in> set ''123456789'')"
| "js_truthy (JStr s) = (s \<noteq> [])"
| "js_truthy (JArr _) = True"
| "js_truthy (JObj _) = True"

text \<open>
  Property access \<^verbatim>\<open>v.name\<close> on a parsed value: only an object of the document has
  such a property; \<open>None\<close> is \<^verbatim>\<open>undefined\<close>.
\<close>

fun js_prop :: "json \<Rightarrow> string \<Rightarrow> json option" where
  "js_prop (JObj fs) name = map_of fs name"
| "js_prop _ name = None"

text \<open>
  \<^verbatim>\<open>String(v)\<close>, as a template literal and \<^verbatim>\<open>new Error(v)\<close> convert a value.  A
  number prints as it was written.
\<close>

fun js_String :: "json \<Rightarrow> string" where
  "js_String JNull = ''null''"
| "js_String (JBool b) = (if b then ''true'' else ''false'')"
| "js_String (JNum n) = n"
| "js_String (JStr s) = s"
| "js_String (JArr vs) = join '','' (map (\<lambda>v. if v = JNull then [] else js_String v) vs)"
| "js_String (JObj _) = ''[object Object]''"

text \<open>
  \<^verbatim>\<open>Object.entries\<close> of a value: the properties of an object, the indexed elements
  of an array or of a string, nothing for a number or a boolean; \<^verbatim>\<open>null\<close> throws a
  \<^verbatim>\<open>TypeError\<close>, here \<open>None\<close>.
\<close>

definition indexed :: "'a list \<Rightarrow> (string \<times> 'a) list" where
  "indexed xs = zip (map show_nat [0..<length xs]) xs"

fun js_entries :: "json \<Rightarrow> (string \<times> json) list option" where
  "js_entries JNull = None"
| "js_entries (JObj fs) = Some fs"
| "js_entries (JArr vs) = Some (indexed vs)"
| "js_entries (JStr s) = Some (indexed (map (\<lambda>c. JStr [c]) s))"
| "js_entries _ = Some []"

text \<open>
  The parser follows the JSON grammar (RFC 8259): the four white-space characters,
  the three literals, numbers, strings with their escapes (a \<^verbatim>\<open>\u\<close> escape is
  stored as the UTF-8 bytes of its code unit), arrays and objects.  A repeated key
  keeps its first position and its last value, as a JavaScript object does.
\<close>

definition json_ws :: "char \<Rightarrow> bool" where
  "json_ws c = (c \<in> set [CHR '' '', CHR 0x09, CHR 0x0A, CHR 0x0D])"

definition skip_ws :: "string \<Rightarrow> string" where
  "skip_ws s = dropWhile json_ws s"

definition hex_val :: "char \<Rightarrow> nat option" where
  "hex_val c =
     (if is_digit c then Some (digit_val c)
      else if c \<in> set ''abcdef'' then Some (of_char c - 87)
      else if c \<in> set ''ABCDEF'' then Some (of_char c - 55)
      else None)"

definition utf8 :: "nat \<Rightarrow> string" where
  "utf8 cp =
     (if cp < 128 then [char_of cp]
      else if cp < 2048 then [char_of (192 + cp div 64), char_of (128 + cp mod 64)]
      else [char_of (224 + cp div 4096), char_of (128 + cp div 64 mod 64), char_of (128 + cp mod 64)])"

definition unescape :: "char \<Rightarrow> char option" where
  "unescape e =
     (if e = CHR 0x22 \<or> e = CHR 0x5C \<or> e = CHR ''/'' then Some e
      else if e = CHR ''b'' then Some (CHR 0x08)
      else if e = CHR ''f'' then Some (CHR 0x0C)
      else if e = CHR ''n'' then Some (CHR 0x0A)
      else if e = CHR ''r'' then Some (CHR 0x0D)
      else if e = CHR ''t'' then Some (CHR 0x09)
      else None)"

text \<open>The characters of a string after its opening quote, up to the closing one.\<close>

fun string_body :: "string \<Rightarrow> (string \<times> string) option" where
  "string_body [] = None"
| "string_body (c # cs) =
     (if c = CHR 0x22 then Some ([], cs)
      else if c = CHR 0x5C then
        (case cs of
           [] \<Rightarrow> None
         | e # r \<Rightarrow>
             if e = CHR ''u'' then
               (case r of
                  h1 # h2 # h3 # h4 # r' \<Rightarrow>
                    (case (hex_val h1, hex_val h2, hex_val h3, hex_val h4) of
                       (Some a, Some b, Some c', Some d) \<Rightarrow>
                         map_option (\<lambda>(s, t). (utf8 (4096 * a + 256 * b + 16 * c' + d) @ s, t))
                           (string_body r')
                     | _ \<Rightarrow> None)
                | _ \<Rightarrow> None)
             else
               (case unescape e of
                  None \<Rightarrow> None
                | Some x \<Rightarrow> map_option (\<lambda>(s, t). (x # s, t)) (string_body r)))
      else if (of_char c :: nat) < 32 then None
      else map_option (\<lambda>(s, t). (c # s, t)) (string_body cs))"

text \<open>A number: its text and the rest of the input.\<close>

definition number_text :: "string \<Rightarrow> (string \<times> string) option" where
  "number_text s =
     (let sign = (if s \<noteq> [] \<and> hd s = CHR ''-'' then ''-'' else []);
          r0 = drop (length sign) s;
          ip = takeWhile is_digit r0;
          r1 = drop (length ip) r0;
          fp = (if r1 \<noteq> [] \<and> hd r1 = CHR ''.'' then CHR ''.'' # takeWhile is_digit (tl r1) else []);
          r2 = drop (length fp) r1;
          es = (if r2 \<noteq> [] \<and> (hd r2 = CHR ''e'' \<or> hd r2 = CHR ''E'') then
                  (if tl r2 \<noteq> [] \<and> (hd (tl r2) = CHR ''+'' \<or> hd (tl r2) = CHR ''-'')
                   then take 2 r2 else take 1 r2)
                else []);
          ed = (if es = [] then [] else takeWhile is_digit (drop (length es) r2));
          r3 = drop (length es + length ed) r2
      in if ip = [] \<or> (length ip > 1 \<and> hd ip = CHR ''0'') \<or> length fp = 1
            \<or> (es \<noteq> [] \<and> ed = [])
         then None
         else Some (sign @ ip @ fp @ es @ ed, r3))"

text \<open>
  Recursive descent.  The first argument bounds the depth of the calls; of two
  calls in a row at least one follows a consumed character, so twice the length of
  the input plus one is enough, which is what \<open>JSON_parse\<close> supplies.
\<close>

fun parse_value :: "nat \<Rightarrow> string \<Rightarrow> (json \<times> string) option"
  and parse_elems :: "nat \<Rightarrow> string \<Rightarrow> (json list \<times> string) option"
  and parse_members :: "nat \<Rightarrow> string \<Rightarrow> ((string \<times> json) list \<times> string) option"
where
  "parse_value 0 s = None"
| "parse_value (Suc n) s =
     (case skip_ws s of
        [] \<Rightarrow> None
      | c # cs \<Rightarrow>
          if c = CHR ''{'' then
            (case skip_ws cs of
               [] \<Rightarrow> None
             | d # r \<Rightarrow>
                 if d = CHR ''}'' then Some (JObj [], r)
                 else map_option
                        (\<lambda>(ms, t). (JObj (foldl (\<lambda>al (k, v). AList.update k v al) [] ms), t))
                        (parse_members n cs))
          else if c = CHR ''['' then
            (case skip_ws cs of
               [] \<Rightarrow> None
             | d # r \<Rightarrow>
                 if d = CHR '']'' then Some (JArr [], r)
                 else map_option (\<lambda>(vs, t). (JArr vs, t)) (parse_elems n cs))
          else if c = CHR 0x22 then map_option (\<lambda>(x, t). (JStr x, t)) (string_body cs)
          else if take 4 (c # cs) = ''true'' then Some (JBool True, drop 3 cs)
          else if take 5 (c # cs) = ''false'' then Some (JBool False, drop 4 cs)
          else if take 4 (c # cs) = ''null'' then Some (JNull, drop 3 cs)
          else map_option (\<lambda>(x, t). (JNum x, t)) (number_text (c # cs)))"
| "parse_elems 0 s = None"
| "parse_elems (Suc n) s =
     (case parse_value n s of
        None \<Rightarrow> None
      | Some (v, r) \<Rightarrow>
          (case skip_ws r of
             [] \<Rightarrow> None
           | d # r' \<Rightarrow>
               if d = CHR '','' then map_option (\<lambda>(vs, t). (v # vs, t)) (parse_elems n r')
               else if d = CHR '']'' then Some ([v], r')
               else None))"
| "parse_members 0 s = None"
| "parse_members (Suc n) s =
     (case skip_ws s of
        [] \<Rightarrow> None
      | q # r \<Rightarrow>
          if q \<noteq> CHR 0x22 then None
          else
            (case string_body r of
               None \<Rightarrow> None
             | Some (k, r1) \<Rightarrow>
                 (case skip_ws r1 of
                    [] \<Rightarrow> None
                  | colon # r2 \<Rightarrow>
                      if colon \<noteq> CHR '':'' then None
                      else
                        (case parse_value n r2 of
                           None \<Rightarrow> None
                         | Some (v, r3) \<Rightarrow>
                             (case skip_ws r3 of
                                [] \<Rightarrow> None
                              | d # r4 \<Rightarrow>
                                  if d = CHR '','' then
                                    map_option (\<lambda>(ms, t). ((k, v) # ms, t)) (parse_members n r4)
                                  else if d = CHR ''}'' then Some ([(k, v)], r4)
                                  else None)))))"

definition JSON_parse :: "string \<Rightarrow> json option" where
  "JSON_parse s =
     (case parse_value (Suc (2 * length s)) s of
        None \<Rightarrow> None
      | Some (v, r) \<Rightarrow> if skip_ws r = [] then Some v else None)"

section \<open>The runtime client (\<^verbatim>\<open>utils/Docker.js\<close>)\<close>

text \<open>A thrown or rejected \<^verbatim>\<open>Error\<close>, with its message.\<close>

datatype js_error = Error (message: string)

subsection \<open>API version discovery\<close>

text \<open>
  What the version-less \<^verbatim>\<open>GET /version\<close> of \<^verbatim>\<open>_rawRequest\<close> yields: a rejection (the
  socket cannot be reached, the status is not 2xx, or the body does not parse), the
  result \<^verbatim>\<open>null\<close> for an empty 2xx body, or the parsed object, of which only the
  property \<^verbatim>\<open>ApiVersion\<close> is read (\<open>None\<close> when it is absent).
\<close>

datatype probe = Probe_rejected | Probe_null | Probe_object "string option"

text \<open>
  One client object: its cached \<^verbatim>\<open>apiVersion\<close> (\<open>None\<close> is \<^verbatim>\<open>null\<close> or
  \<^verbatim>\<open>undefined\<close>), the number of version probes it has issued, the operations that
  are suspended at \<^verbatim>\<open>await this._getApiVersion()\<close> with their probe in flight (each
  by the path it was called with), and the paths of the requests it has put on the
  wire, in order.  The process makes one such object per module that needs the
  runtime.
\<close>

record docker =
  apiVersion :: "string option"
  probes :: nat
  in_flight :: "string list"
  on_wire :: "string list"

definition new_Docker :: docker where
  "new_Docker = \<lparr>apiVersion = None, probes = 0, in_flight = [], on_wire = []\<rparr>"

definition truthy_str :: "string option \<Rightarrow> bool" where
  "truthy_str v = (v \<noteq> None \<and> v \<noteq> Some [])"

text \<open>The path \<^verbatim>\<open>/v${version}${path}\<close> a request is sent to.\<close>

definition request_path :: "string option \<Rightarrow> string \<Rightarrow> string" where
  "request_path version path =
     ''/v'' @ (case version of None \<Rightarrow> ''undefined'' | Some v \<Rightarrow> v) @ path"

text \<open>
  An operation is called (\<^verbatim>\<open>_request\<close>, or \<^verbatim>\<open>pull\<close>): \<^verbatim>\<open>_getApiVersion\<close> returns the
  cached version when it is truthy and the request goes out; otherwise a probe is
  issued and the operation waits for it.
\<close>

definition call :: "string \<Rightarrow> docker \<Rightarrow> docker" where
  "call path d =
     (if truthy_str (apiVersion d)
      then d\<lparr>on_wire := on_wire d @ [request_path (apiVersion d) path]\<rparr>
      else d\<lparr>probes := probes d + 1, in_flight := in_flight d @ [path]\<rparr>)"

text \<open>
  The probe of the waiting operation number \<open>i\<close> settles with the answer \<open>p\<close>: the
  rest of \<^verbatim>\<open>_getApiVersion\<close> assigns \<^verbatim>\<open>this.apiVersion\<close> (the answer's \<^verbatim>\<open>ApiVersion\<close>, or
  the fallback in the \<^verbatim>\<open>catch\<close>: reading \<^verbatim>\<open>version.ApiVersion\<close> of \<^verbatim>\<open>null\<close> throws
  inside the \<^verbatim>\<open>try\<close>, so an empty body ends there like a rejection) and the
  operation sends its request with the value just assigned.
\<close>

definition settle :: "nat \<Rightarrow> probe \<Rightarrow> docker \<Rightarrow> docker" where
  "settle i p d =
     (if i < length (in_flight d) then
        (let version = (case p of Probe_object v \<Rightarrow> v | _ \<Rightarrow> Some ''1.44'') in
         d\<lparr>apiVersion := version,
           in_flight := take i (in_flight d) @ drop (Suc i) (in_flight d),
           on_wire := on_wire d @ [request_path version (in_flight d ! i)]\<rparr>)
      else d)"

text \<open>
  A run of the client: calls and settled probes in the order in which they happen.
  Two calls with no settled probe between them are two operations that overlap.
\<close>

datatype client_event = Call string | Settled nat probe

fun client_step :: "client_event \<Rightarrow> docker \<Rightarrow> docker" where
  "client_step (Call path) d = call path d"
| "client_step (Settled i p) d = settle i p d"

definition client_run :: "client_event list \<Rightarrow> docker \<Rightarrow> docker" where
  "client_run evs d = foldl (\<lambda>d ev. client_step ev d) d evs"

text \<open>The paths of the operations called in a run.\<close>

definition called :: "client_event list \<Rightarrow> string list" where
  "called evs = concat (map (\<lambda>ev. case ev of Call path \<Rightarrow> [path] | Settled i p \<Rightarrow> []) evs)"

subsection \<open>The progress drain\<close>

text \<open>
  A response stream as the drain sees it: the \<^verbatim>\<open>data\<close> chunks in order, then either
  \<^verbatim>\<open>end\<close> or \<^verbatim>\<open>error\<close>.
\<close>

datatype stream_end = End | Stream_error js_error

text \<open>
  The \<^verbatim>\<open>data\<close> handler of \<^verbatim>\<open>followProgress\<close>: the chunk is split at line feeds, lines
  that are empty after trimming are dropped, every remaining line that parses is
  appended to \<^verbatim>\<open>allOutput\<close> (and handed to \<^verbatim>\<open>onProgress\<close>), and a line that does not
  parse is skipped.
\<close>

definition chunk_records :: "string \<Rightarrow> json list" where
  "chunk_records chunk =
     List.map_filter JSON_parse (filter (\<lambda>l. trim l \<noteq> []) (split_on (CHR 0x0A) chunk))"

definition on_data :: "json list \<Rightarrow> string \<Rightarrow> json list" where
  "on_data allOutput chunk = allOutput @ chunk_records chunk"

text \<open>
  The \<^verbatim>\<open>end\<close> and \<^verbatim>\<open>error\<close> handlers: the error argument of \<^verbatim>\<open>onFinished\<close>.
  \<^verbatim>\<open>allOutput[allOutput.length - 1]\<close> is \<^verbatim>\<open>undefined\<close> for an empty list.
\<close>

definition last_error :: "json list \<Rightarrow> json option" where
  "last_error allOutput =
     (if allOutput = [] then None
      else if \<not> js_truthy (last allOutput) then None
      else (case js_prop (last allOutput) ''error'' of
              None \<Rightarrow> None
            | Some e \<Rightarrow> if js_truthy e then Some e else None))"

definition finish :: "stream_end \<Rightarrow> json list \<Rightarrow> js_error option" where
  "finish e allOutput =
     (case e of
        End \<Rightarrow> map_option (\<lambda>v. Error (js_String v)) (last_error allOutput)
      | Stream_error err \<Rightarrow> Some err)"

text \<open>
  \<^verbatim>\<open>followProgress(stream, onFinished, onProgress)\<close>: the two arguments passed to
  \<^verbatim>\<open>onFinished\<close>, and the records passed to \<^verbatim>\<open>onProgress\<close> in order (none when no
  hook is given).
\<close>

record progress =
  finished_err :: "js_error option"
  all_records :: "json list"
  progress_calls :: "json list"

definition followProgress :: "string list \<times> stream_end \<Rightarrow> bool \<Rightarrow> progress" where
  "followProgress stream has_hook =
     (let allOutput = foldl on_data [] (fst stream) in
      \<lparr>finished_err = finish (snd stream) allOutput,
       all_records = allOutput,
       progress_calls = (if has_hook then allOutput else [])\<rparr>)"

section \<open>The state store (\<^verbatim>\<open>readStates\<close>, \<^verbatim>\<open>writeStates\<close>, \<^verbatim>\<open>updateState\<close>)\<close>

text \<open>
  One record of \<^verbatim>\<open>storage/states.json\<close>, and the document as the object it parses
  to: a dictionary from instance ids to records.  The model keeps the parsed value,
  not the bytes; \<^verbatim>\<open>JSON.stringify\<close> writes the same text for the same value.  This is
  the store as the handlers and the stats session below use it: on a document that
  is an object of such records, with instance ids that are ordinary property names.
  The store on any parsed value and any property name follows further down.
\<close>

record instance_state =
  state :: string
  containerId :: "string option"
  diskLimit :: "int option"

type_synonym states = "string \<rightharpoonup> instance_state"

text \<open>
  The file: absent, holding a document, or holding text that \<^verbatim>\<open>JSON.parse\<close> rejects.
\<close>

datatype states_file = Absent | Document states | Unparseable

text \<open>
  \<^verbatim>\<open>readStates\<close> creates the file with an empty object when it does not exist, then
  reads and parses it; a parse error is rethrown.
\<close>

definition readStates :: "states_file \<Rightarrow> (js_error + states) \<times> states_file" where
  "readStates f =
     (case f of
        Absent \<Rightarrow> (Inr Map.empty, Document Map.empty)
      | Document m \<Rightarrow> (Inr m, Document m)
      | Unparseable \<Rightarrow> (Inl (Error ''Unexpected token in JSON''), Unparseable))"

text \<open>
  \<^verbatim>\<open>writeStates\<close> creates the file when it does not exist and then overwrites it with
  the serialised document.
\<close>

definition writeStates :: "states \<Rightarrow> states_file \<Rightarrow> states_file" where
  "writeStates m f = (case f of Absent \<Rightarrow> Document m | _ \<Rightarrow> Document m)"

text \<open>
  \<^verbatim>\<open>updateState(volumeId, state, containerId = null, diskLimit = null)\<close>: the whole
  document is read, the entry is assigned a fresh object of the three fields, and
  the whole document is written back.
\<close>

definition updateState ::
  "string \<Rightarrow> string \<Rightarrow> string option \<Rightarrow> int option \<Rightarrow> states_file \<Rightarrow> (js_error + unit) \<times> states_file"
where
  "updateState volumeId st cid dl f =
     (case readStates f of
        (Inl e, f') \<Rightarrow> (Inl e, f')
      | (Inr m, f') \<Rightarrow>
          (Inr (),
           writeStates (m(volumeId \<mapsto> \<lparr>state = st, containerId = cid, diskLimit = dl\<rparr>)) f'))"

subsection \<open>The store on any parsed document\<close>

text \<open>
  The same three functions on whatever the file holds: no file, a text that parses
  to some JSON value (an object or not), or a text that \<^verbatim>\<open>JSON.parse\<close> rejects.  The
  directory of the file exists, and creating, reading and writing the file succeed.
\<close>

datatype stored = No_file | Holds json | Garbage

text \<open>
  A number of the file is read as a double, and \<^verbatim>\<open>JSON.stringify\<close> writes a double
  with digits that read back as the same double; so a number stands for its double,
  under the text it was first written with.  The exception is a number whose
  magnitude is at least \<open>2\<^sup>1\<^sup>0\<^sup>2\<^sup>4 - 2\<^sup>9\<^sup>7\<^sup>0\<close>, half way from the largest double to
  \<open>2\<^sup>1\<^sup>0\<^sup>2\<^sup>4\<close>: it is read as \<^verbatim>\<open>Infinity\<close>, which is written as \<^verbatim>\<open>null\<close>.  The text of a
  number is an optional minus sign, digits, an optional fraction and an optional
  exponent.
\<close>

definition number_overflows :: "string \<Rightarrow> bool" where
  "number_overflows s =
     (let u = (case s of [] \<Rightarrow> [] | c # r \<Rightarrow> if c = CHR ''-'' then r else s);
          whole = takeWhile is_digit u;
          r1 = dropWhile is_digit u;
          has_fraction = (case r1 of [] \<Rightarrow> False | c # r \<Rightarrow> c = CHR ''.'');
          fraction = (if has_fraction then takeWhile is_digit (tl r1) else []);
          r2 = (if has_fraction then dropWhile is_digit (tl r1) else r1);
          exponent = (case r2 of
                        [] \<Rightarrow> 0
                      | c # r \<Rightarrow>
                          if c = CHR ''e'' \<or> c = CHR ''E''
                          then (case parseInt r of None \<Rightarrow> 0 | Some e \<Rightarrow> e) else 0);
          m = digits_val (whole @ fraction);
          e = exponent - int (length fraction)
      in if 0 \<le> e then 2 ^ 1024 - 2 ^ 970 \<le> m * 10 ^ nat e
         else (2 ^ 1024 - 2 ^ 970) * 10 ^ nat (- e) \<le> m)"

text \<open>The value that the text written by \<^verbatim>\<open>JSON.stringify\<close> parses to.\<close>

fun as_written :: "json \<Rightarrow> json" where
  "as_written (JNum s) = (if number_overflows s then JNull else JNum s)"
| "as_written (JArr vs) = JArr (map as_written vs)"
| "as_written (JObj fs) = JObj (map (\<lambda>(k, v). (k, as_written v)) fs)"
| "as_written v = v"

definition readStates_json :: "stored \<Rightarrow> (js_error + json) \<times> stored" where
  "readStates_json f =
     (case f of
        No_file \<Rightarrow> (Inr (JObj []), Holds (JObj []))
      | Holds v \<Rightarrow> (Inr v, Holds v)
      | Garbage \<Rightarrow> (Inl (Error ''Unexpected token in JSON''), Garbage))"

definition writeStates_json :: "json \<Rightarrow> stored \<Rightarrow> stored" where
  "writeStates_json v f = (case f of No_file \<Rightarrow> Holds (as_written v) | _ \<Rightarrow> Holds (as_written v))"

text \<open>
  An array index as a property name: the decimal text, without leading zeros, of a
  number below \<open>2\<^sup>3\<^sup>2 - 1\<close>.  Assigning at or past the end of an array extends it,
  and the holes are written as \<^verbatim>\<open>null\<close>.
\<close>

definition is_index :: "string \<Rightarrow> bool" where
  "is_index s =
     (s \<noteq> [] \<and> list_all is_digit s \<and> (s = ''0'' \<or> hd s \<noteq> CHR ''0'')
      \<and> digits_val s < 4294967295)"

definition set_index :: "nat \<Rightarrow> json \<Rightarrow> json list \<Rightarrow> json list" where
  "set_index n v vs =
     (if n < length vs then vs[n := v] else vs @ replicate (n - length vs) JNull @ [v])"

text \<open>
  The assignment \<^verbatim>\<open>states[key] = v\<close> in a module that is not in strict mode, and the
  object \<^verbatim>\<open>JSON.stringify\<close> then sees.  On \<^verbatim>\<open>null\<close> it throws.  On an object it stores
  the property, replacing one that is there; but the name \<^verbatim>\<open>__proto__\<close>, unless the
  object has a property of its own by that name (which \<^verbatim>\<open>JSON.parse\<close> can create), is
  the accessor of \<^verbatim>\<open>Object.prototype\<close>: the assignment changes the prototype and no
  property is stored.  On an array an index stores an element, \<^verbatim>\<open>length\<close> throws, and
  any other name makes a property that is not serialised.  On a number, a string or
  a boolean the assignment is ignored.
\<close>

definition assign :: "json \<Rightarrow> string \<Rightarrow> json \<Rightarrow> js_error + json" where
  "assign states key v =
     (case states of
        JNull \<Rightarrow> Inl (Error ''Cannot set properties of null'')
      | JObj fs \<Rightarrow>
          if key = ''__proto__'' \<and> map_of fs key = None then Inr (JObj fs)
          else Inr (JObj (AList.update key v fs))
      | JArr vs \<Rightarrow>
          if is_index key then Inr (JArr (set_index (digits_val key) v vs))
          else if key = ''length'' then Inl (Error ''Invalid array length'')
          else Inr (JArr vs)
      | _ \<Rightarrow> Inr states)"

text \<open>The object literal \<^verbatim>\<open>{ state, containerId, diskLimit }\<close>.\<close>

definition record_json :: "string \<Rightarrow> string option \<Rightarrow> int option \<Rightarrow> json" where
  "record_json st cid dl =
     JObj [(''state'', JStr st),
           (''containerId'', case cid of None \<Rightarrow> JNull | Some c \<Rightarrow> JStr c),
           (''diskLimit'', case dl of None \<Rightarrow> JNull | Some d \<Rightarrow> JNum (show_int d))]"

text \<open>
  \<^verbatim>\<open>updateState\<close> on such a file.  One call is taken by itself: between its read and
  its write no other call writes the file.
\<close>

definition updateState_json ::
  "string \<Rightarrow> string \<Rightarrow> string option \<Rightarrow> int option \<Rightarrow> stored \<Rightarrow> (js_error + unit) \<times> stored"
where
  "updateState_json volumeId st cid dl f =
     (case readStates_json f of
        (Inl e, f') \<Rightarrow> (Inl e, f')
      | (Inr states, f') \<Rightarrow>
          (case assign states volumeId (record_json st cid dl) of
             Inl e \<Rightarrow> (Inl e, f')
           | Inr states' \<Rightarrow> (Inr (), writeStates_json states' f')))"

text \<open>
  How the two views of the store correspond: an object whose properties are the
  records of a dictionary, each as its object literal.
\<close>

definition encodes :: "(string \<times> json) list \<Rightarrow> states \<Rightarrow> bool" where
  "encodes fs m =
     (\<forall>k. map_of fs k = map_option (\<lambda>r. record_json (state r) (containerId r) (diskLimit r)) (m k))"

fun file_encodes :: "stored \<Rightarrow> states_file \<Rightarrow> bool" where
  "file_encodes No_file Absent = True"
| "file_encodes (Holds (JObj fs)) (Document m) = encodes fs m"
| "file_encodes Garbage Unparseable = True"
| "file_encodes _ _ = False"

section \<open>The asset fetcher (\<^verbatim>\<open>downloadFile\<close>)\<close>

text \<open>
  What one \<^verbatim>\<open>https.get\<close> of the loop meets: the request fails, or a response arrives
  with a status code; for a 200 the second field says whether piping the body into
  the write stream fails.
\<close>

datatype attempt_result = Get_failed js_error | Response nat "js_error option"

text \<open>What the function does that can be observed from outside, in order.\<close>

datatype fetch_event =
    Https_get nat
  | Wait_60s
  | Piped
  | Log_attempt_failed nat
  | Unlink string

definition maxAttempts :: nat where
  "maxAttempts = 3"

text \<open>
  The \<^verbatim>\<open>catch\<close> of the loop body: the failure is logged, the file is unlinked, and
  the error is rethrown when this was the last attempt (\<open>Inl\<close>); otherwise the loop
  goes on (\<open>Inr\<close>).
\<close>

definition attempt_failed ::
  "string \<Rightarrow> nat \<Rightarrow> js_error \<Rightarrow> fetch_event list \<Rightarrow> (js_error \<times> fetch_event list) + fetch_event list"
where
  "attempt_failed filePath attempt err evs =
     (let evs' = evs @ [Log_attempt_failed attempt, Unlink filePath] in
      if attempt = maxAttempts then Inl (err, evs') else Inr evs')"

text \<open>
  The \<^verbatim>\<open>while (attempt < maxAttempts)\<close> loop of \<^verbatim>\<open>routes/Deployment.js\<close>.  The
  environment \<open>get\<close> gives the outcome of the attempt with a given number.  On status
  522 the loop waits and \<^verbatim>\<open>continue\<close>s, which goes back to the loop condition
  without passing through the \<^verbatim>\<open>catch\<close>.
\<close>

function download_loop ::
  "(nat \<Rightarrow> attempt_result) \<Rightarrow> string \<Rightarrow> string \<Rightarrow> nat \<Rightarrow> fetch_event list
     \<Rightarrow> js_error option \<times> fetch_event list"
where
  "download_loop get url filePath attempt evs =
     (if attempt < maxAttempts then
        (let attempt' = attempt + 1;
             evs1 = evs @ [Https_get attempt'] in
         case get attempt' of
           Get_failed err \<Rightarrow>
             (case attempt_failed filePath attempt' err evs1 of
                Inl (e, evs2) \<Rightarrow> (Some e, evs2)
              | Inr evs2 \<Rightarrow> download_loop get url filePath attempt' evs2)
         | Response status pipe_err \<Rightarrow>
             if status = 522 then download_loop get url filePath attempt' (evs1 @ [Wait_60s])
             else if status \<noteq> 200 then
               (case attempt_failed filePath attempt'
                       (Error (''HTTP '' @ show_nat status @ '' for '' @ url)) evs1 of
                  Inl (e, evs2) \<Rightarrow> (Some e, evs2)
                | Inr evs2 \<Rightarrow> download_loop get url filePath attempt' evs2)
             else
               (case pipe_err of
                  None \<Rightarrow> (None, evs1 @ [Piped])
                | Some err \<Rightarrow>
                    (case attempt_failed filePath attempt' err evs1 of
                       Inl (e, evs2) \<Rightarrow> (Some e, evs2)
                     | Inr evs2 \<Rightarrow> download_loop get url filePath attempt' evs2)))
      else (None, evs))"
  by pat_completeness auto
termination
  by (relation "measure (\<lambda>(get, url, filePath, attempt, evs). maxAttempts - attempt)") auto

declare download_loop.simps [simp del]

text \<open>
  \<^verbatim>\<open>downloadFile(url, dir, filename)\<close>: \<open>None\<close> when the promise resolves, \<open>Some e\<close> when
  it rejects with \<open>e\<close>.
\<close>

definition downloadFile ::
  "(nat \<Rightarrow> attempt_result) \<Rightarrow> string \<Rightarrow> string \<Rightarrow> string \<Rightarrow> js_error option \<times> fetch_event list"
where
  "downloadFile get url dir filename = download_loop get url (dir @ ''/'' @ filename) 0 []"

text \<open>The number of requests in a trace of events.\<close>

definition count_gets :: "fetch_event list \<Rightarrow> nat" where
  "count_gets evs = length (filter (\<lambda>ev. case ev of Https_get n \<Rightarrow> True | _ \<Rightarrow> False) evs)"

text \<open>The document a file holds once it has been read: empty for an absent file.\<close>

definition records_of :: "states_file \<Rightarrow> states" where
  "records_of f = (case f of Document m \<Rightarrow> m | _ \<Rightarrow> Map.empty)"

section \<open>The deployment pipeline (\<^verbatim>\<open>createContainer\<close>)\<close>

subsection \<open>The request, the outside world, the effects\<close>

text \<open>
  The body of \<^verbatim>\<open>POST /instances/create\<close>.  An absent property is \<open>None\<close>.  The field
  \<open>Id'\<close> is the property \<^verbatim>\<open>Id\<close>; \<open>Install\<close> is \<^verbatim>\<open>Scripts.Install\<close> when it is an array.
\<close>

record binding =
  HostPort :: "string option"

record script =
  Uri :: string
  Path :: string

record create_request =
  Image :: string
  Id' :: string
  Cmd :: "string list option"
  Env :: "string list option"
  Ports :: "json option"
  ExposedPorts :: "json option"
  Install :: "script list option"
  Memory :: int
  Cpu :: int
  Disk :: "int option"
  PortBindings :: "(string \<times> binding list) list option"
  variables :: "json option"

text \<open>The options object handed to the runtime.\<close>

record container_options =
  c_name :: string
  c_Image :: string
  c_ExposedPorts :: "json option"
  c_PortBindings :: "(string \<times> binding list) list"
  c_Binds :: "string list"
  c_Memory :: int
  c_CpuCount :: int
  c_NetworkMode :: string
  c_Env :: "string list"
  c_Cmd :: "string list option"

text \<open>
  The answers of the outside world to one request: of \<^verbatim>\<open>fs.mkdir\<close>, of \<^verbatim>\<open>docker.pull\<close>
  (a rejection, or the response stream), of \<^verbatim>\<open>docker.createContainer\<close> (a rejection,
  or the \<^verbatim>\<open>Id\<close> of the runtime's answer), of the provisioning stage (install scripts
  and \<^verbatim>\<open>replaceVariables\<close>; a failed download is caught and logged there, so only the
  file-system walk can throw), and of \<^verbatim>\<open>container.start\<close>.
\<close>

record outside =
  mkdir_result :: "js_error option"
  pull_result :: "js_error + (string list \<times> stream_end)"
  create_result :: "js_error + string option"
  provision_result :: "js_error option"
  start_result :: "js_error option"
  win32 :: bool

datatype reply_body =
    Message string
  | Deployment_started "string list" string string

text \<open>
  The state the handler acts on: the state document, the volume directories made,
  the create calls that went to the runtime, the containers started, and the HTTP
  response (\<open>None\<close> until one is sent).  \<open>states_at_reply\<close> records the state document as
  it was when the response was sent.
\<close>

record world =
  states_json :: states_file
  volume_dirs :: "string list"
  create_calls :: "container_options list"
  started :: "string list"
  response :: "(nat \<times> reply_body) option"
  states_at_reply :: "states_file option"

definition send :: "nat \<Rightarrow> reply_body \<Rightarrow> world \<Rightarrow> world" where
  "send status body w = w\<lparr>response := Some (status, body), states_at_reply := Some (states_json w)\<rparr>"

subsection \<open>The pure parts\<close>

definition host_port_text :: "binding \<Rightarrow> string" where
  "host_port_text b = (case HostPort b of None \<Rightarrow> ''undefined'' | Some s \<Rightarrow> s)"

text \<open>The port check of the validation loop: \<^verbatim>\<open>isNaN(p) || p < 1 || p > 65535\<close> rejects.\<close>

definition invalid_port :: "binding \<Rightarrow> bool" where
  "invalid_port b =
     (case parseInt (host_port_text b) of
        None \<Rightarrow> True
      | Some p \<Rightarrow> p < 1 \<or> p > 65535)"

text \<open>The first binding the two nested loops reject, if any.\<close>

definition first_invalid :: "(string \<times> binding list) list option \<Rightarrow> binding option" where
  "first_invalid pbs =
     (case pbs of
        None \<Rightarrow> None
      | Some entries \<Rightarrow> find invalid_port (concat (map snd entries)))"

definition objectToEnv :: "(string \<times> json) list \<Rightarrow> string list" where
  "objectToEnv entries = map (\<lambda>(k, v). k @ ''='' @ js_String v) entries"

text \<open>
  \<^verbatim>\<open>parsedVariables\<close>: a string is parsed (an empty object when that fails), any other
  truthy value is taken as it is, and everything else gives the empty object.
\<close>

definition parse_variables :: "json option \<Rightarrow> json" where
  "parse_variables raw =
     (case raw of
        None \<Rightarrow> JObj []
      | Some v \<Rightarrow>
          if \<not> js_truthy v then JObj []
          else (case v of
                  JStr s \<Rightarrow> (case JSON_parse s of None \<Rightarrow> JObj [] | Some p \<Rightarrow> p)
                | _ \<Rightarrow> v))"

definition primaryPort :: "(string \<times> binding list) list option \<Rightarrow> string" where
  "primaryPort pbs =
     (case pbs of
        Some ((_, b # _) # _) \<Rightarrow>
          (if truthy_str (HostPort b) then the (HostPort b) else ''25565'')
      | _ \<Rightarrow> ''25565'')"

definition or_zero :: "int option \<Rightarrow> int" where
  "or_zero d = (case d of None \<Rightarrow> 0 | Some n \<Rightarrow> n)"

definition volumePath :: "string \<Rightarrow> string" where
  "volumePath ident = ''volumes/'' @ ident"

definition createContainerOptions ::
  "bool \<Rightarrow> create_request \<Rightarrow> string list \<Rightarrow> string \<Rightarrow> container_options"
where
  "createContainerOptions on_win32 req env path =
     \<lparr>c_name = Id' req,
      c_Image = Image req,
      c_ExposedPorts = ExposedPorts req,
      c_PortBindings = (case PortBindings req of None \<Rightarrow> [] | Some pbs \<Rightarrow> pbs),
      c_Binds = [path @ '':/app/data''],
      c_Memory = Memory req * 1024 * 1024,
      c_CpuCount = Cpu req,
      c_NetworkMode = (if on_win32 then ''bridge'' else ''host''),
      c_Env = env,
      c_Cmd = Cmd req\<rparr>"

text \<open>
  Pulling the image: \<^verbatim>\<open>docker.pull\<close> may reject; otherwise the stream is drained by
  \<^verbatim>\<open>followProgress\<close> (without a progress hook) and an error of the drain rejects.
\<close>

definition pull_image :: "outside \<Rightarrow> js_error option" where
  "pull_image out =
     (case pull_result out of
        Inl e \<Rightarrow> Some e
      | Inr stream \<Rightarrow>
          map_option (\<lambda>e. Error (''Failed to pull image: '' @ message e))
            (finished_err (followProgress stream False)))"

subsection \<open>The handler of \<^verbatim>\<open>routes/Deployment.js\<close>\<close>

text \<open>
  The \<^verbatim>\<open>catch\<close> block: commit \<^verbatim>\<open>FAILED\<close> with \<^verbatim>\<open>containerForState\<close>, then answer 500
  unless the headers were sent.  When the commit itself throws, the handler's promise
  rejects and nothing is sent.
\<close>

definition on_failure :: "create_request \<Rightarrow> js_error \<Rightarrow> string option \<Rightarrow> world \<Rightarrow> world" where
  "on_failure req err containerForState w =
     (case updateState (Id' req) ''FAILED'' containerForState (Some (or_zero (Disk req))) (states_json w) of
        (Inl e, f) \<Rightarrow> w\<lparr>states_json := f\<rparr>
      | (Inr u, f) \<Rightarrow>
          (let w' = w\<lparr>states_json := f\<rparr> in
           if response w' = None then send 500 (Message (message err)) w' else w'))"

text \<open>The part of the \<^verbatim>\<open>try\<close> block after the early 202: provisioning, start, final commit.\<close>

definition background :: "outside \<Rightarrow> create_request \<Rightarrow> string \<Rightarrow> world \<Rightarrow> world" where
  "background out req cid w =
     (case (if Install req = None then None else provision_result out) of
        Some e \<Rightarrow> on_failure req e (Some cid) w
      | None \<Rightarrow>
          (case start_result out of
             Some e \<Rightarrow> on_failure req e (Some cid) w
           | None \<Rightarrow>
               (let w1 = w\<lparr>started := started w @ [cid]\<rparr> in
                case updateState (Id' req) ''READY'' (Some cid) (Some (or_zero (Disk req))) (states_json w1) of
                  (Inl e, f) \<Rightarrow> on_failure req e (Some cid) (w1\<lparr>states_json := f\<rparr>)
                | (Inr u, f) \<Rightarrow> w1\<lparr>states_json := f\<rparr>)))"

text \<open>The \<^verbatim>\<open>try\<close> block up to and including the early 202.\<close>

definition deploy :: "outside \<Rightarrow> create_request \<Rightarrow> string list \<Rightarrow> world \<Rightarrow> world" where
  "deploy out req env w =
     (case mkdir_result out of
        Some e \<Rightarrow> on_failure req e None w
      | None \<Rightarrow>
          (let w1 = w\<lparr>volume_dirs := volume_dirs w @ [volumePath (Id' req)]\<rparr> in
           case updateState (Id' req) ''INSTALLING'' None (Some (or_zero (Disk req))) (states_json w1) of
             (Inl e, f) \<Rightarrow> on_failure req e None (w1\<lparr>states_json := f\<rparr>)
           | (Inr u, f) \<Rightarrow>
               (let w2 = w1\<lparr>states_json := f\<rparr> in
                case pull_image out of
                  Some e \<Rightarrow> on_failure req e None w2
                | None \<Rightarrow>
                    (let opts = createContainerOptions (win32 out) req env (volumePath (Id' req));
                         w3 = w2\<lparr>create_calls := create_calls w2 @ [opts]\<rparr> in
                     case create_result out of
                       Inl e \<Rightarrow> on_failure req e None w3
                     | Inr ident \<Rightarrow>
                         if \<not> truthy_str ident
                         then on_failure req (Error ''Container creation failed'') None w3
                         else background out req (the ident)
                                (send 202 (Deployment_started env (Id' req) (the ident)) w3)))))"

text \<open>
  The handler.  Validation comes first and answers 400; the environment is built
  next, outside the \<^verbatim>\<open>try\<close> block, so a \<^verbatim>\<open>TypeError\<close> of \<^verbatim>\<open>Object.keys(null)\<close> there
  rejects the handler's promise with nothing sent and nothing done.
\<close>

definition createContainer :: "outside \<Rightarrow> create_request \<Rightarrow> world \<Rightarrow> world" where
  "createContainer out req w =
     (case first_invalid (PortBindings req) of
        Some b \<Rightarrow> send 400 (Message (''Invalid port: '' @ host_port_text b)) w
      | None \<Rightarrow>
          (case js_entries (parse_variables (variables req)) of
             None \<Rightarrow> w
           | Some entries \<Rightarrow>
               deploy out req
                 ((case Env req of None \<Rightarrow> [] | Some e \<Rightarrow> e) @ objectToEnv entries
                    @ [''PRIMARY_PORT='' @ primaryPort (PortBindings req)])
                 w))"

subsection \<open>The older handler kept in the repository\<close>

text \<open>
  The second \<^verbatim>\<open>createContainer\<close> of the sources has no validation, reads the primary
  port inside the \<^verbatim>\<open>try\<close> block (a \<^verbatim>\<open>TypeError\<close> when there is no first binding), wraps
  the pull in a \<^verbatim>\<open>try\<close> of its own whose \<^verbatim>\<open>catch\<close> returns a 500 directly, and commits
  \<^verbatim>\<open>FAILED\<close> with a null container id.
\<close>

definition legacy_failure :: "create_request \<Rightarrow> js_error \<Rightarrow> world \<Rightarrow> world" where
  "legacy_failure req err w = on_failure req err None w"

definition legacy_primaryPort :: "(string \<times> binding list) list option \<Rightarrow> js_error + string" where
  "legacy_primaryPort pbs =
     (case pbs of
        Some ((_, b # _) # _) \<Rightarrow> Inr (host_port_text b)
      | _ \<Rightarrow> Inl (Error ''Cannot read properties of undefined''))"

definition legacy_variablesEnv :: "json option \<Rightarrow> string list" where
  "legacy_variablesEnv raw =
     (case raw of
        None \<Rightarrow> []
      | Some v \<Rightarrow>
          if \<not> js_truthy v then []
          else (case js_entries v of None \<Rightarrow> [] | Some entries \<Rightarrow> objectToEnv entries))"

definition legacy_background :: "outside \<Rightarrow> create_request \<Rightarrow> string \<Rightarrow> world \<Rightarrow> world" where
  "legacy_background out req cid w =
     (case (if Install req = None then None else provision_result out) of
        Some e \<Rightarrow> legacy_failure req e w
      | None \<Rightarrow>
          (case start_result out of
             Some e \<Rightarrow> legacy_failure req e w
           | None \<Rightarrow>
               (let w1 = w\<lparr>started := started w @ [cid]\<rparr> in
                case updateState (Id' req) ''READY'' (Some cid) (Some (or_zero (Disk req))) (states_json w1) of
                  (Inl e, f) \<Rightarrow> legacy_failure req e (w1\<lparr>states_json := f\<rparr>)
                | (Inr u, f) \<Rightarrow> w1\<lparr>states_json := f\<rparr>)))"

definition createContainer_legacy :: "outside \<Rightarrow> create_request \<Rightarrow> world \<Rightarrow> world" where
  "createContainer_legacy out req w =
     (case mkdir_result out of
        Some e \<Rightarrow> legacy_failure req e w
      | None \<Rightarrow>
          (let w1 = w\<lparr>volume_dirs := volume_dirs w @ [volumePath (Id' req)]\<rparr> in
           case legacy_primaryPort (PortBindings req) of
             Inl e \<Rightarrow> legacy_failure req e w1
           | Inr port \<Rightarrow>
               (let env = (case Env req of None \<Rightarrow> [] | Some e \<Rightarrow> e)
                            @ legacy_variablesEnv (variables req) @ [''PRIMARY_PORT='' @ port] in
                case updateState (Id' req) ''INSTALLING'' None (Some (or_zero (Disk req))) (states_json w1) of
                  (Inl e, f) \<Rightarrow> legacy_failure req e (w1\<lparr>states_json := f\<rparr>)
                | (Inr u, f) \<Rightarrow>
                    (let w2 = w1\<lparr>states_json := f\<rparr> in
                     case pull_image out of
                       Some e \<Rightarrow> send 500 (Message (message e)) w2
                     | None \<Rightarrow>
                         (let opts = (createContainerOptions (win32 out) req env (volumePath (Id' req)))
                                       \<lparr>c_ExposedPorts :=
                                          (case ExposedPorts req of None \<Rightarrow> Ports req | Some x \<Rightarrow> Some x)\<rparr>;
                              w3 = w2\<lparr>create_calls := create_calls w2 @ [opts]\<rparr> in
                          case create_result out of
                            Inl e \<Rightarrow> legacy_failure req e w3
                          | Inr ident \<Rightarrow>
                              if \<not> truthy_str ident
                              then legacy_failure req (Error ''Container creation failed'') w3
                              else legacy_background out req (the ident)
                                     (send 202 (Deployment_started env (Id' req) (the ident)) w3))))))"

section \<open>The control API: \<^verbatim>\<open>GET /stats\<close>\<close>

text \<open>
  \<^verbatim>\<open>formatUptime\<close>, applied to \<^verbatim>\<open>process.uptime()\<close>, a number of seconds with a
  fraction.
\<close>

definition formatUptime :: "real \<Rightarrow> string" where
  "formatUptime uptime =
     (let minutes = \<lfloor>js_rem (uptime / 60) 60\<rfloor>;
          hours = \<lfloor>js_rem (uptime / 3600) 24\<rfloor>;
          days = \<lfloor>uptime / 86400\<rfloor>;
          parts = (if days > 0 then [show_int days @ ''d''] else [])
                @ (if hours > 0 then [show_int hours @ ''h''] else [])
                @ (if minutes > 0 then [show_int minutes @ ''m''] else [])
      in if length parts = 0 then ''0m'' else join '' '' parts)"

text \<open>
  The handler.  The host totals come from the stats collector and the container list
  from the runtime; either may throw (\<open>None\<close>), which the \<^verbatim>\<open>catch\<close> turns into a 500.
\<close>

datatype 'a stats_reply =
    Stats_ok (totalStats: 'a) (onlineContainersCount: nat) (uptime: string)
  | Stats_failed

definition get_stats :: "'a option \<Rightarrow> string list option \<Rightarrow> real \<Rightarrow> 'a stats_reply" where
  "get_stats totals container_states uptimeInSeconds =
     (case totals of
        None \<Rightarrow> Stats_failed
      | Some t \<Rightarrow>
          (case container_states of
             None \<Rightarrow> Stats_failed
           | Some cs \<Rightarrow>
               Stats_ok t (length (filter (\<lambda>s. s = ''running'') cs)) (formatUptime uptimeInSeconds)))"

text \<open>
  The uptime text in whole seconds, as the amended statement of the format reads:
  the components days, hours of the day and minutes of the hour; those that are not
  zero, each with its unit letter, joined by single spaces; \<open>0m\<close> when all are zero.
\<close>

definition uptime_text :: "nat \<Rightarrow> string" where
  "uptime_text s =
     (let comps = [(s div 86400, CHR ''d''), (s div 3600 mod 24, CHR ''h''), (s div 60 mod 60, CHR ''m'')];
          shown = map (\<lambda>(n, c). show_nat n @ [c]) (filter (\<lambda>(n, c). n \<noteq> 0) comps)
      in if shown = [] then ''0m'' else join '' '' shown)"

section \<open>The session multiplexer\<close>

subsection \<open>The stats session and the quota loop (\<^verbatim>\<open>setupStatsStreaming\<close>)\<close>

text \<open>
  Reading the disk limit at the start of the session: the file must exist and parse,
  the record must be there and its \<^verbatim>\<open>diskLimit\<close> must be truthy; in every other case,
  and when reading throws, the limit stays 0.
\<close>

definition read_disk_limit :: "states_file \<Rightarrow> string \<Rightarrow> int" where
  "read_disk_limit f volumeId =
     (case f of
        Absent \<Rightarrow> 0
      | Unparseable \<Rightarrow> 0
      | Document m \<Rightarrow>
          (case m volumeId of
             None \<Rightarrow> 0
           | Some r \<Rightarrow>
               (case diskLimit r of
                  None \<Rightarrow> 0
                | Some d \<Rightarrow> if d \<noteq> 0 then d else 0)))"

text \<open>
  What one tick of the timer meets: whether \<^verbatim>\<open>container.stats\<close> succeeds, what
  \<^verbatim>\<open>getVolumeSize\<close> returns once passed through \<^verbatim>\<open>parseFloat\<close> (\<open>Inl\<close> when it throws,
  \<open>Inr None\<close> for \<^verbatim>\<open>NaN\<close>), what \<^verbatim>\<open>container.inspect\<close> reports as \<^verbatim>\<open>State.Running\<close>
  (\<open>None\<close> when it throws), whether \<^verbatim>\<open>container.stop\<close> succeeds, whether the channel is
  open, and the state document as it is on disk at that moment.
\<close>

record tick =
  stats_ok :: bool
  volume_size :: "js_error + real option"
  running :: "bool option"
  stop_ok :: bool
  ws_open :: bool
  states_now :: states_file

record stats_session =
  session_limit :: int
  hasAutoStopped :: bool

record sample =
  volumeSizeMiB :: real
  sample_limit :: int
  storageExceeded :: bool

datatype stats_event = Sent_sample sample | Sent_error | Stop_called

definition sample_failed :: "tick \<Rightarrow> stats_event list" where
  "sample_failed t = (if ws_open t then [Sent_error] else [])"

text \<open>\<^verbatim>\<open>fetchStats\<close>, the body of the timer.\<close>

definition fetchStats :: "tick \<Rightarrow> stats_session \<Rightarrow> stats_session \<times> stats_event list" where
  "fetchStats t s =
     (if \<not> stats_ok t then (s, sample_failed t)
      else
        (case volume_size t of
           Inl e \<Rightarrow> (s, sample_failed t)
         | Inr parsed \<Rightarrow>
             (let size = (case parsed of None \<Rightarrow> 0 | Some v \<Rightarrow> v);
                  exceeded = (session_limit s > 0 \<and> size \<ge> real_of_int (session_limit s));
                  sent = Sent_sample \<lparr>volumeSizeMiB = size, sample_limit = session_limit s,
                                      storageExceeded = exceeded\<rparr> in
              if exceeded \<and> \<not> hasAutoStopped s then
                (case running t of
                   None \<Rightarrow> (s, sample_failed t)
                 | Some True \<Rightarrow>
                     if stop_ok t then (s\<lparr>hasAutoStopped := True\<rparr>, [Stop_called, sent])
                     else (s, Stop_called # sample_failed t)
                 | Some False \<Rightarrow> (s, [sent]))
              else (s, [sent]))))"



fun run_ticks :: "tick list \<Rightarrow> stats_session \<Rightarrow> stats_event list" where
  "run_ticks [] s = []"
| "run_ticks (t # ts) s = (let (s', evs) = fetchStats t s in evs @ run_ticks ts s')"

text \<open>
  \<^verbatim>\<open>setupStatsStreaming\<close>: the limit is read from the file as it is at the start, and the
  timer then fires for each tick until the channel closes.
\<close>

definition setupStatsStreaming :: "states_file \<Rightarrow> string \<Rightarrow> tick list \<Rightarrow> stats_event list" where
  "setupStatsStreaming f volumeId ticks =
     run_ticks ticks \<lparr>session_limit = read_disk_limit f volumeId, hasAutoStopped = False\<rparr>"

subsection \<open>The exec session and the log buffer (\<^verbatim>\<open>streamDockerLogs\<close>)\<close>

record log_message =
  timestamp :: string
  content :: string

text \<open>
  \<^verbatim>\<open>containerLogs\<close> is one object of the socket server, shared by all connections; each
  connection has its own log stream.  The map holds the properties the object has
  of its own.
\<close>

type_synonym container_logs = "string \<rightharpoonup> log_message list"

text \<open>
  The object is a plain \<^verbatim>\<open>{}\<close>, so reading \<^verbatim>\<open>containerLogs[id]\<close> for a name it does
  not have itself finds what \<^verbatim>\<open>Object.prototype\<close> has: one of its functions (listed
  with the \<^verbatim>\<open>length\<close> of each), the prototype object itself for \<^verbatim>\<open>__proto__\<close>, and
  \<^verbatim>\<open>undefined\<close> for every other name.
\<close>

definition prototype_functions :: "(string \<times> nat) list" where
  "prototype_functions =
     [(''constructor'', 1), (''__defineGetter__'', 2), (''__defineSetter__'', 2),
      (''hasOwnProperty'', 1), (''__lookupGetter__'', 1), (''__lookupSetter__'', 1),
      (''isPrototypeOf'', 1), (''propertyIsEnumerable'', 1), (''toString'', 0),
      (''valueOf'', 0), (''toLocaleString'', 0)]"

datatype found = Buffer "log_message list" | Function nat | Prototype | Undefined

definition lookup_logs :: "container_logs \<Rightarrow> string \<Rightarrow> found" where
  "lookup_logs logs ident =
     (case logs ident of
        Some buffer \<Rightarrow> Buffer buffer
      | None \<Rightarrow>
          (case map_of prototype_functions ident of
             Some n \<Rightarrow> Function n
           | None \<Rightarrow> if ident = ''__proto__'' then Prototype else Undefined))"

text \<open>A container id for which a read of a fresh \<^verbatim>\<open>containerLogs\<close> finds nothing.\<close>

definition plain_name :: "string \<Rightarrow> bool" where
  "plain_name ident = (lookup_logs Map.empty ident = Undefined)"

definition formatLogMessage :: "log_message \<Rightarrow> string" where
  "formatLogMessage m =
     concat (map (\<lambda>line. [CHR 0x0D, CHR 0x0A, CHR 0x1B] @ ''[34m[docker] '' @ [CHR 0x1B] @ ''[0m''
                             @ line @ [CHR 0x0D, CHR 0x0A])
               (filter (\<lambda>line. length line > 0) (split_on (CHR 0x0A) (content m))))"

definition kswings_notice :: "string \<Rightarrow> string" where
  "kswings_notice text =
     [CHR 0x0D, CHR 0x0A, CHR 0x1B] @ ''[31m[kswings] '' @ [CHR 0x1B] @ ''[0m'' @ text
       @ [CHR 0x0D, CHR 0x0A]"

text \<open>
  One connection: the container it is attached to, whether its log stream is live,
  and the frames it has sent.
\<close>

record exec_session =
  attached_to :: string
  stream_live :: bool
  frames :: "string list"

text \<open>
  Attaching.  When the read of \<^verbatim>\<open>containerLogs[id]\<close> is falsy, which only \<^verbatim>\<open>undefined\<close>
  is, an empty buffer is stored.  Then, when the \<^verbatim>\<open>length\<close> of what is read is
  positive, \<^verbatim>\<open>forEach\<close> sends the buffered messages; on one of the functions of the
  prototype there is no \<^verbatim>\<open>forEach\<close> and the call throws, before the \<^verbatim>\<open>try\<close> block.
  Last, the follow-mode log stream is requested (\<open>logs_result\<close> is the error when the
  runtime returns none).
\<close>

definition streamDockerLogs ::
  "string \<Rightarrow> js_error option \<Rightarrow> bool \<Rightarrow> container_logs
     \<Rightarrow> js_error + (container_logs \<times> exec_session)"
where
  "streamDockerLogs cid logs_result ws_is_open logs =
     (let logs' = (if lookup_logs logs cid = Undefined then logs(cid \<mapsto> []) else logs);
          attach = (case logs_result of
                      None \<Rightarrow> []
                    | Some e \<Rightarrow>
                        if ws_is_open
                        then [kswings_notice (''Failed to attach logs: '' @ message e)] else []);
          session = (\<lambda>replay. \<lparr>attached_to = cid, stream_live = (logs_result = None),
                                 frames = replay @ attach\<rparr>) in
      case lookup_logs logs' cid of
        Buffer buffer \<Rightarrow> Inr (logs', session (map formatLogMessage buffer))
      | Function n \<Rightarrow>
          if n > 0 then Inl (Error ''containerLogs[containerId].forEach is not a function'')
          else Inr (logs', session [])
      | _ \<Rightarrow> Inr (logs', session []))"

text \<open>
  What happens to a connection afterwards: a chunk of the log stream (with the time
  it arrives and whether the channel is open with an empty outbound buffer), an
  error of the stream, or the close of the channel, whose handler destroys the log
  stream and does nothing else.  A destroyed stream delivers no more chunks.  A
  chunk is pushed on what \<^verbatim>\<open>containerLogs[id]\<close> reads; when that is not a buffer there
  is no \<^verbatim>\<open>push\<close>, and the exception, thrown in an event listener, ends the process.
\<close>

datatype exec_event = Log_data string string bool | Log_error string bool | Ws_close

fun exec_step ::
  "exec_event \<Rightarrow> container_logs \<times> exec_session \<Rightarrow> js_error + (container_logs \<times> exec_session)"
where
  "exec_step (Log_data ts chunk can_send) (logs, s) =
     (if \<not> stream_live s then Inr (logs, s)
      else
        (case lookup_logs logs (attached_to s) of
           Buffer buffer \<Rightarrow>
             (let m = \<lparr>timestamp = ts, content = chunk\<rparr>;
                  logs' = logs(attached_to s \<mapsto> buffer @ [m]) in
              Inr (logs', if can_send then s\<lparr>frames := frames s @ [formatLogMessage m]\<rparr> else s))
         | _ \<Rightarrow> Inl (Error ''containerLogs[containerId].push is not a function'')))"
| "exec_step (Log_error msg is_open) (logs, s) =
     (if \<not> stream_live s then Inr (logs, s)
      else Inr (logs, if is_open
                      then s\<lparr>frames := frames s @ [kswings_notice (''Log stream error: '' @ msg)]\<rparr>
                      else s))"
| "exec_step Ws_close (logs, s) = Inr (logs, s\<lparr>stream_live := False\<rparr>)"

fun exec_run ::
  "exec_event list \<Rightarrow> container_logs \<times> exec_session \<Rightarrow> js_error + (container_logs \<times> exec_session)"
where
  "exec_run [] st = Inr st"
| "exec_run (ev # evs) st = (case exec_step ev st of Inl e \<Rightarrow> Inl e | Inr st' \<Rightarrow> exec_run evs st')"

text \<open>A connection from the attach to the end of its events.\<close>

definition exec_connection ::
  "string \<Rightarrow> js_error option \<Rightarrow> bool \<Rightarrow> exec_event list \<Rightarrow> container_logs
     \<Rightarrow> js_error + (container_logs \<times> exec_session)"
where
  "exec_connection cid logs_result ws_is_open evs logs =
     (case streamDockerLogs cid logs_result ws_is_open logs of
        Inl e \<Rightarrow> Inl e
      | Inr st \<Rightarrow> exec_run evs st)"

section \<open>Sample data\<close>

text \<open>
  The create request of the first end-to-end scenario, an outside world in which
  every stage succeeds, and the state of a fresh installation.
\<close>

definition sample_request :: create_request where
  "sample_request =
     \<lparr>Image = ''alpine:latest'', Id' = ''inst-A'', Cmd = None, Env = None, Ports = None,
      ExposedPorts = None, Install = None, Memory = 128, Cpu = 1, Disk = None,
      PortBindings = Some [(''80/tcp'', [\<lparr>HostPort = Some ''18080''\<rparr>])],
      variables = Some (JObj [(''NAME'', JStr ''svc'')])\<rparr>"

definition all_well :: outside where
  "all_well =
     \<lparr>mkdir_result = None,
      pull_result = Inr ([''{\"status\":\"Pull complete\"}'' @ [CHR 0x0A]], End),
      create_result = Inr (Some ''4f2d9a1c77aa''),
      provision_result = None,
      start_result = None,
      win32 = False\<rparr>"

definition fresh_world :: world where
  "fresh_world =
     \<lparr>states_json = Absent, volume_dirs = [], create_calls = [], started = [],
      response = None, states_at_reply = None\<rparr>"

text \<open>A state document with two instances.\<close>

definition sample_document :: states where
  "sample_document =
     [''inst-A'' \<mapsto> \<lparr>state = ''READY'', containerId = Some ''c1'', diskLimit = Some 5\<rparr>,
      ''inst-B'' \<mapsto> \<lparr>state = ''READY'', containerId = Some ''c2'', diskLimit = Some 0\<rparr>]"

text \<open>A tick of the stats timer that finds a running container and a volume of 5000 MiB.\<close>

definition large_volume_tick :: tick where
  "large_volume_tick =
     \<lparr>stats_ok = True, volume_size = Inr (Some 5000), running = Some True, stop_ok = True,
      ws_open = True, states_now = Document sample_document\<rparr>"



chapter \<open>Properties\<close>

section \<open>The uptime of \<^verbatim>\<open>GET /stats\<close>\<close>

lemma floor_div_nat:
  assumes "0 \<le> u" and "0 < k"
  shows "\<lfloor>u / real k\<rfloor> = int (nat \<lfloor>u\<rfloor> div k)"
proof -
  have "\<lfloor>u / real_of_int (int k)\<rfloor> = \<lfloor>u\<rfloor> div int k"
    by (rule floor_divide_real_eq_div) simp
  moreover have "\<lfloor>u\<rfloor> = int (nat \<lfloor>u\<rfloor>)" using assms by simp
  ultimately show ?thesis by (metis of_int_of_nat_eq zdiv_int)
qed

lemma floor_js_rem:
  assumes "0 \<le> u" and "0 < k" and "0 < m"
  shows "\<lfloor>js_rem (u / real k) (real m)\<rfloor> = int (nat \<lfloor>u\<rfloor> div k mod m)"
proof -
  let ?s = "nat \<lfloor>u\<rfloor>"
  have nn: "0 \<le> u / real k / real m" using assms by simp
  have "u / real k / real m = u / real (k * m)" by simp
  then have q: "\<lfloor>u / real k / real m\<rfloor> = int (?s div (k * m))"
    using floor_div_nat [of u "k * m"] assms by simp
  have "js_rem (u / real k) (real m) = u / real k - of_int (int m * int (?s div (k * m)))"
    using nn q by (simp add: js_rem_def js_trunc_def)
  then have "\<lfloor>js_rem (u / real k) (real m)\<rfloor> = \<lfloor>u / real k\<rfloor> - int m * int (?s div (k * m))"
    by (metis floor_diff_of_int)
  also have "\<dots> = int (?s div k) - int m * int (?s div k div m)"
    using floor_div_nat [OF assms(1,2)] by (simp add: div_mult2_eq)
  also have "\<dots> = int (?s div k mod m)"
  proof -
    have "?s div k mod m + m * (?s div k div m) = ?s div k" by simp
    then have "int (?s div k mod m) + int m * int (?s div k div m) = int (?s div k)"
      by (metis of_nat_add of_nat_mult)
    then show ?thesis by linarith
  qed
  finally show ?thesis .
qed

lemma formatUptime_text:
  assumes "0 \<le> u"
  shows "formatUptime u = uptime_text (nat \<lfloor>u\<rfloor>)"
proof -
  have d: "\<lfloor>u / 86400\<rfloor> = int (nat \<lfloor>u\<rfloor> div 86400)"
    using floor_div_nat [of u 86400] assms by simp
  have h: "\<lfloor>js_rem (u / 3600) 24\<rfloor> = int (nat \<lfloor>u\<rfloor> div 3600 mod 24)"
    using floor_js_rem [of u 3600 24] assms by simp
  have m: "\<lfloor>js_rem (u / 60) 60\<rfloor> = int (nat \<lfloor>u\<rfloor> div 60 mod 60)"
    using floor_js_rem [of u 60 60] assms by simp
  show ?thesis
    unfolding formatUptime_def uptime_text_def Let_def d h m
    by (simp add: show_int_def)
qed

lemma uptime_text_86700: "uptime_text 86700 = ''1d 5m''"
  by (simp add: uptime_text_def show_nat.simps)

text \<open>
  C9, as stated: the uptime is \<open>Nd Nh Nm\<close> with the zero leading components omitted
  and the interior zero components kept.  It fails after one day and five minutes:
  the hours are zero and are left out, where the claim expects \<open>1d 0h 5m\<close>.
\<close>

theorem uptime_interior_zero_counterexample:
  "get_stats (Some ()) (Some [''running'', ''exited'']) 86700 = Stats_ok () 1 ''1d 5m''
   \<and> uptime (get_stats (Some ()) (Some [''running'', ''exited'']) 86700) \<noteq> ''1d 0h 5m''"
proof -
  have "formatUptime 86700 = ''1d 5m''"
    using formatUptime_text [of 86700] by (simp add: uptime_text_86700)
  then show ?thesis by (simp add: get_stats_def)
qed

text \<open>
  C9, amended: when the host totals and the container list are available,
  \<^verbatim>\<open>GET /stats\<close> returns the totals, the number of containers whose state is
  \<open>running\<close>, and the uptime as the list of its days, hours and minutes components
  that are not zero, each as \<open>Nd\<close>, \<open>Nh\<close>, \<open>Nm\<close>, joined by spaces: every zero component
  is omitted, leading or not, and the text is \<open>0m\<close> when all of them are zero.
\<close>

theorem get_stats_uptime:
  assumes "0 \<le> u"
  shows "get_stats (Some t) (Some cs) u
           = Stats_ok t (length (filter (\<lambda>s. s = ''running'') cs)) (uptime_text (nat \<lfloor>u\<rfloor>))"
  using formatUptime_text [OF assms] by (simp add: get_stats_def)

theorem get_stats_uptime_witness:
  "(0::real) \<le> 172859 / 2
   \<and> get_stats (Some ()) (Some [''running'']) (172859 / 2) = Stats_ok () 1 ''1d''"
proof -
  have h: "(0::real) \<le> 172859 / 2" by simp
  from get_stats_uptime [OF h, of "()" "[''running'']"]
  show ?thesis by (simp add: uptime_text_def show_nat.simps)
qed

section \<open>The asset fetcher\<close>

lemma count_gets_append [simp]: "count_gets (xs @ ys) = count_gets xs + count_gets ys"
  by (simp add: count_gets_def)

lemma count_gets_simps [simp]:
  "count_gets [] = 0"
  "count_gets (Https_get n # evs) = Suc (count_gets evs)"
  "count_gets (Wait_60s # evs) = count_gets evs"
  "count_gets (Piped # evs) = count_gets evs"
  "count_gets (Log_attempt_failed n # evs) = count_gets evs"
  "count_gets (Unlink f # evs) = count_gets evs"
  by (simp_all add: count_gets_def)

text \<open>Whatever the network answers, the loop issues at most three requests.\<close>

lemma download_loop_gets:
  "count_gets (snd (download_loop get url fp a evs)) \<le> count_gets evs + (maxAttempts - a)"
proof (induction "maxAttempts - a" arbitrary: a evs)
  case 0
  then have "\<not> a < maxAttempts" by simp
  then show ?case by (simp add: download_loop.simps [of get url fp a evs])
next
  case (Suc k)
  then have lt: "a < maxAttempts" and k: "k = maxAttempts - Suc a" by arith+
  have IH: "count_gets (snd (download_loop get url fp (Suc a) evs'))
              \<le> count_gets evs' + (maxAttempts - Suc a)" for evs'
    using Suc.hyps(1) [OF k] .
  have step: "count_gets evs' = Suc (count_gets evs) \<Longrightarrow>
      count_gets (snd (download_loop get url fp (Suc a) evs')) \<le> count_gets evs + maxAttempts - a" for evs'
    using IH [of evs'] lt by arith
  show ?case
    using lt
    by (subst download_loop.simps)
       (auto simp: Let_def attempt_failed_def step split: attempt_result.split option.split)
qed

lemma downloadFile_at_most_three:
  "count_gets (snd (downloadFile get url dir filename)) \<le> 3"
  using download_loop_gets [of get url "dir @ ''/'' @ filename" 0 "[]"]
  by (simp add: downloadFile_def maxAttempts_def)

text \<open>
  A status other than 200 and 522 fails each attempt at once: no wait, the file is
  unlinked after every attempt, and the error of the third attempt is thrown.
\<close>

lemma downloadFile_other_status:
  assumes "status \<noteq> 200" and "status \<noteq> 522"
  shows "downloadFile (\<lambda>n. Response status None) url dir filename
           = (Some (Error (''HTTP '' @ show_nat status @ '' for '' @ url)),
              [Https_get 1, Log_attempt_failed 1, Unlink (dir @ ''/'' @ filename),
               Https_get 2, Log_attempt_failed 2, Unlink (dir @ ''/'' @ filename),
               Https_get 3, Log_attempt_failed 3, Unlink (dir @ ''/'' @ filename)])"
  using assms
  by (simp add: downloadFile_def download_loop.simps maxAttempts_def attempt_failed_def)

text \<open>
  C4 says that a 522 is waited out on the first two attempts only and that the error
  of the final attempt is surfaced when all attempts fail.  When every attempt is
  answered with 522 the code waits after each of the three requests, the third
  included, and then leaves the loop through its condition: the promise resolves,
  no error is thrown and the file is not unlinked.
\<close>

theorem downloadFile_522_on_every_attempt:
  "downloadFile (\<lambda>n. Response 522 None) url dir filename
     = (None, [Https_get 1, Wait_60s, Https_get 2, Wait_60s, Https_get 3, Wait_60s])"
  by (simp add: downloadFile_def download_loop.simps maxAttempts_def)

section \<open>The runtime client\<close>

subsection \<open>API version discovery\<close>

lemma client_run_Nil [simp]: "client_run [] d = d"
  by (simp add: client_run_def)

lemma client_run_Cons [simp]: "client_run (ev # evs) d = client_run evs (client_step ev d)"
  by (simp add: client_run_def)

lemma called_simps [simp]:
  "called [] = []"
  "called (Call path # evs) = path # called evs"
  "called (Settled i p # evs) = called evs"
  by (simp_all add: called_def)

lemma client_run_cached:
  assumes "truthy_str (apiVersion d)" and "in_flight d = []"
  shows "client_run evs d
           = d\<lparr>on_wire := on_wire d @ map (request_path (apiVersion d)) (called evs)\<rparr>"
  using assms
proof (induction evs arbitrary: d)
  case Nil
  then show ?case by simp
next
  case (Cons ev evs)
  show ?case
  proof (cases ev)
    case (Call path)
    let ?d = "d\<lparr>on_wire := on_wire d @ [request_path (apiVersion d) path]\<rparr>"
    have s: "client_step ev d = ?d" using Call Cons.prems by (simp add: call_def)
    have "truthy_str (apiVersion ?d)" "in_flight ?d = []" using Cons.prems by simp_all
    from Cons.IH [OF this] show ?thesis using s Call by simp
  next
    case (Settled i p)
    then have "client_step ev d = d" using Cons.prems by (simp add: settle_def)
    then show ?thesis using Cons.IH [OF Cons.prems] Settled by simp
  qed
qed

text \<open>
  C10, as stated: the version is resolved at most once, and a failure of the first
  probe pins the fallback.  Two runs show otherwise.  In the first the runtime
  answers the probe with a 2xx object that has no \<^verbatim>\<open>ApiVersion\<close>: nothing truthy is
  cached, the path is built from \<^verbatim>\<open>undefined\<close>, and the next operation probes again.
  In the second, two operations are called before any probe has settled: each issues
  its own probe; the first probe fails and the fallback is cached, then the second
  probe returns \<open>1.47\<close> and replaces it.
\<close>

theorem version_probed_again_counterexample:
  "client_run [Call ''/_ping'', Settled 0 (Probe_object None), Call ''/info'', Settled 0 (Probe_object None)]
       new_Docker
     = \<lparr>apiVersion = None, probes = 2, in_flight = [],
        on_wire = [''/vundefined/_ping'', ''/vundefined/info'']\<rparr>
   \<and> client_run [Call ''/_ping'', Call ''/info'', Settled 0 Probe_rejected,
                 Settled 0 (Probe_object (Some ''1.47''))] new_Docker
     = \<lparr>apiVersion = Some ''1.47'', probes = 2, in_flight = [],
        on_wire = [''/v1.44/_ping'', ''/v1.47/info'']\<rparr>"
  by (simp add: new_Docker_def call_def settle_def truthy_str_def request_path_def)

text \<open>
  C10, amended: a client object that holds a truthy cached version while no probe
  is in flight keeps it for good: whatever is called afterwards goes out under that
  version, no probe is issued, and nothing the runtime would answer changes it.  So
  when the first operation is the only one under way until its probe has settled,
  and that probe fails (a rejection, or an empty body), the fallback \<open>1.44\<close> is
  cached after one probe and every later request goes to \<open>/v1.44\<close>, also once the
  runtime has recovered; when that probe returns a non-empty version, that version
  is cached in the same way.
\<close>

theorem cached_version_is_final:
  "(truthy_str (apiVersion d) \<and> in_flight d = [] \<longrightarrow>
      client_run evs d = d\<lparr>on_wire := on_wire d @ map (request_path (apiVersion d)) (called evs)\<rparr>)
   \<and> (p = Probe_rejected \<or> p = Probe_null \<longrightarrow>
      client_run (Call path # Settled 0 p # evs) new_Docker
        = \<lparr>apiVersion = Some ''1.44'', probes = 1, in_flight = [],
           on_wire = map (\<lambda>q. ''/v1.44'' @ q) (path # called evs)\<rparr>)
   \<and> (v \<noteq> [] \<longrightarrow>
      client_run (Call path # Settled 0 (Probe_object (Some v)) # evs) new_Docker
        = \<lparr>apiVersion = Some v, probes = 1, in_flight = [],
           on_wire = map (\<lambda>q. ''/v'' @ v @ q) (path # called evs)\<rparr>)"
proof -
  have a: "client_run evs \<lparr>apiVersion = Some x, probes = 1, in_flight = [], on_wire = [''/v'' @ x @ path]\<rparr>
             = \<lparr>apiVersion = Some x, probes = 1, in_flight = [],
                on_wire = map (\<lambda>q. ''/v'' @ x @ q) (path # called evs)\<rparr>"
    if "x \<noteq> []" for x
    using client_run_cached
            [of "\<lparr>apiVersion = Some x, probes = 1, in_flight = [], on_wire = [''/v'' @ x @ path]\<rparr>" evs]
          that
    by (simp add: truthy_str_def request_path_def)
  have b: "client_step (Settled 0 q) (client_step (Call path) new_Docker)
             = \<lparr>apiVersion = Some x, probes = 1, in_flight = [], on_wire = [''/v'' @ x @ path]\<rparr>"
    if "(case q of Probe_object w \<Rightarrow> w | _ \<Rightarrow> Some ''1.44'') = Some x" for q x
    using that by (simp add: new_Docker_def call_def settle_def truthy_str_def request_path_def)
  show ?thesis
    using client_run_cached [of d evs] a [of "''1.44''"] a [of v]
          b [of Probe_rejected "''1.44''"] b [of Probe_null "''1.44''"] b [of "Probe_object (Some v)" v]
    by auto
qed

theorem cached_version_is_final_witness:
  "client_run [Call ''/_ping'', Settled 0 Probe_rejected, Call ''/info'',
               Settled 0 (Probe_object (Some ''1.47''))] new_Docker
     = \<lparr>apiVersion = Some ''1.44'', probes = 1, in_flight = [],
        on_wire = [''/v1.44/_ping'', ''/v1.44/info'']\<rparr>
   \<and> client_run [Call ''/_ping'', Settled 0 (Probe_object (Some ''1.47'')), Call ''/info'',
                 Settled 0 Probe_rejected] new_Docker
     = \<lparr>apiVersion = Some ''1.47'', probes = 1, in_flight = [],
        on_wire = [''/v1.47/_ping'', ''/v1.47/info'']\<rparr>"
  using cached_version_is_final
          [where p = Probe_rejected and path = "''/_ping''" and v = "''1.47''"
             and evs = "[Call ''/info'', Settled 0 (Probe_object (Some ''1.47''))]"]
        cached_version_is_final
          [where p = Probe_null and path = "''/_ping''" and v = "''1.47''"
             and evs = "[Call ''/info'', Settled 0 Probe_rejected]"]
  by simp

subsection \<open>The progress drain\<close>

lemma foldl_on_data: "foldl on_data acc chunks = acc @ concat (map chunk_records chunks)"
  by (induction chunks arbitrary: acc) (simp_all add: on_data_def)

text \<open>
  The records collected are those of each chunk taken by itself, in order; a line
  that does not parse contributes nothing and stops nothing.
\<close>

lemma followProgress_records:
  "all_records (followProgress (chunks, e) h) = concat (map chunk_records chunks)"
  by (simp add: followProgress_def foldl_on_data Let_def)

lemma followProgress_hook:
  "progress_calls (followProgress (chunks, e) True) = all_records (followProgress (chunks, e) True)"
  by (simp add: followProgress_def Let_def)

lemma followProgress_stream_error:
  "finished_err (followProgress (chunks, Stream_error err) h) = Some err"
  by (simp add: followProgress_def Let_def finish_def)

lemma followProgress_end:
  "finished_err (followProgress (chunks, End) h) \<noteq> None
     \<longleftrightarrow> last_error (concat (map chunk_records chunks)) \<noteq> None"
  by (simp add: followProgress_def Let_def finish_def foldl_on_data)

text \<open>
  C3 says that every line of the stream that parses is collected and that the error
  is non-null when the final record has an \<open>error\<close> field.  The drain splits each
  chunk by itself and keeps no partial line.  Here the stream is the two lines
  \<open>{"status":"a"}\<close> and \<open>{"error":"boom"}\<close>; delivered in two chunks that divide the
  second line, neither half parses, one record is collected and the drain reports
  success; delivered in one chunk, both records are collected and the error is
  reported.
\<close>

theorem followProgress_line_across_chunks:
  "followProgress ([''{\"status\":\"a\"}'' @ [CHR 0x0A] @ ''{\"err'', ''or\":\"boom\"}'' @ [CHR 0x0A]], End) True
     = \<lparr>finished_err = None,
        all_records = [JObj [(''status'', JStr ''a'')]],
        progress_calls = [JObj [(''status'', JStr ''a'')]]\<rparr>
   \<and> followProgress ([''{\"status\":\"a\"}'' @ [CHR 0x0A] @ ''{\"error\":\"boom\"}'' @ [CHR 0x0A]], End) True
     = \<lparr>finished_err = Some (Error ''boom''),
        all_records = [JObj [(''status'', JStr ''a'')], JObj [(''error'', JStr ''boom'')]],
        progress_calls = [JObj [(''status'', JStr ''a'')], JObj [(''error'', JStr ''boom'')]]\<rparr>"
  by code_simp

section \<open>The state store\<close>

lemma updateState_Document:
  "updateState k s c d (Document m)
     = (Inr (), Document (m(k \<mapsto> \<lparr>state = s, containerId = c, diskLimit = d\<rparr>)))"
  by (simp add: updateState_def readStates_def writeStates_def)

lemma updateState_Absent:
  "updateState k s c d Absent
     = (Inr (), Document [k \<mapsto> \<lparr>state = s, containerId = c, diskLimit = d\<rparr>])"
  by (simp add: updateState_def readStates_def writeStates_def)

lemma updateState_Unparseable:
  "updateState k s c d Unparseable = (Inl (Error ''Unexpected token in JSON''), Unparseable)"
  by (simp add: updateState_def readStates_def)

lemma digit_char:
  assumes "k < 10"
  shows "is_digit (''0123456789'' ! k)" and "digit_val (''0123456789'' ! k) = k"
proof -
  from assms have "k = 0 \<or> k = 1 \<or> k = 2 \<or> k = 3 \<or> k = 4 \<or> k = 5 \<or> k = 6 \<or> k = 7 \<or> k = 8 \<or> k = 9"
    by arith
  then show "is_digit (''0123456789'' ! k)" and "digit_val (''0123456789'' ! k) = k"
    by (auto simp: is_digit_def digit_val_def)
qed

lemma digits_val_snoc: "digits_val (xs @ [c]) = 10 * digits_val xs + digit_val c"
  by (simp add: digits_val_def)

lemma show_nat_digits: "list_all is_digit (show_nat n) \<and> digits_val (show_nat n) = n"
proof (induction n rule: show_nat.induct)
  case (1 n)
  show ?case
  proof (cases "n < 10")
    case True
    then show ?thesis
      using digit_char [of n] by (simp add: show_nat.simps [of n] digits_val_def)
  next
    case False
    then show ?thesis
      using 1 digit_char [of "n mod 10"]
      by (simp add: show_nat.simps [of n] digits_val_snoc)
  qed
qed

lemma show_nat_not_Nil: "show_nat n \<noteq> []"
  by (simp add: show_nat.simps [of n])

lemma hd_show_nat: "hd (show_nat n) \<noteq> CHR ''-''"
proof -
  have "list_all is_digit (show_nat n)" by (simp add: show_nat_digits)
  then have "is_digit (hd (show_nat n))"
    using show_nat_not_Nil [of n] by (cases "show_nat n") auto
  then show ?thesis by (auto simp: is_digit_def)
qed

lemma number_overflows_digits:
  assumes "list_all is_digit s" and "s \<noteq> []"
  shows "number_overflows s = (2 ^ 1024 - 2 ^ 970 \<le> digits_val s)"
    and "number_overflows (CHR ''-'' # s) = (2 ^ 1024 - 2 ^ 970 \<le> digits_val s)"
proof -
  from assms have t: "takeWhile is_digit s = s" "dropWhile is_digit s = []"
    by (simp_all add: list_all_iff)
  from assms have u: "(case s of [] \<Rightarrow> [] | c # r \<Rightarrow> if c = CHR ''-'' then r else s) = s"
    by (cases s) (auto simp: is_digit_def)
  show "number_overflows s = (2 ^ 1024 - 2 ^ 970 \<le> digits_val s)"
    unfolding number_overflows_def u by (simp add: t Let_def)
  show "number_overflows (CHR ''-'' # s) = (2 ^ 1024 - 2 ^ 970 \<le> digits_val s)"
    unfolding number_overflows_def by (simp add: t Let_def)
qed

lemma number_overflows_show_int:
  "number_overflows (show_int d) = (2 ^ 1024 - 2 ^ 970 \<le> \<bar>d\<bar>)"
proof (cases "d < 0")
  case True
  have "number_overflows (CHR ''-'' # show_nat (nat (- d))) = (2 ^ 1024 - 2 ^ 970 \<le> nat (- d))"
    using number_overflows_digits(2) [of "show_nat (nat (- d))"] show_nat_digits [of "nat (- d)"]
      show_nat_not_Nil [of "nat (- d)"]
    by simp
  also have "\<dots> = (2 ^ 1024 - 2 ^ 970 \<le> \<bar>d\<bar>)" using True by (simp add: le_nat_iff) 
  finally show ?thesis using True by (simp add: show_int_def)
next
  case False
  have "number_overflows (show_nat (nat d)) = (2 ^ 1024 - 2 ^ 970 \<le> nat d)"
    using number_overflows_digits(1) [of "show_nat (nat d)"] show_nat_digits [of "nat d"]
      show_nat_not_Nil [of "nat d"]
    by simp
  also have "\<dots> = (2 ^ 1024 - 2 ^ 970 \<le> \<bar>d\<bar>)" using False by (simp add: le_nat_iff)
  finally show ?thesis using False by (simp add: show_int_def)
qed

lemma as_written_record:
  "(\<forall>d. dl = Some d \<longrightarrow> \<bar>d\<bar> < 2 ^ 1024 - 2 ^ 970) \<Longrightarrow>
     as_written (record_json st cid dl) = record_json st cid dl"
  by (cases dl; cases cid) (simp_all add: record_json_def number_overflows_show_int)



lemma as_written_update:
  "map (\<lambda>(k, v). (k, as_written v)) (AList.update k v fs)
     = AList.update k (as_written v) (map (\<lambda>(k, v). (k, as_written v)) fs)"
  by (induction fs) auto

lemma updateState_json_object:
  "k \<noteq> ''__proto__'' \<Longrightarrow>
     updateState_json k st cid dl (Holds (JObj fs))
       = (Inr (), Holds (JObj (map (\<lambda>(k, v). (k, as_written v))
                                (AList.update k (record_json st cid dl) fs))))"
  by (simp add: updateState_json_def readStates_json_def assign_def writeStates_json_def)

lemma updateState_json_no_file:
  "k \<noteq> ''__proto__'' \<Longrightarrow>
     updateState_json k st cid dl No_file
       = (Inr (), Holds (JObj [(k, as_written (record_json st cid dl))]))"
  by (simp add: updateState_json_def readStates_json_def assign_def writeStates_json_def)

lemma updateState_json_throws:
  "fst (updateState_json k st cid dl Garbage) = Inl (Error ''Unexpected token in JSON'')"
  "fst (updateState_json k st cid dl (Holds JNull)) = Inl (Error ''Cannot set properties of null'')"
  by (simp_all add: updateState_json_def readStates_json_def assign_def)




text \<open>
  A number of another record that is beyond the range of a double does not survive
  the call: it was read as \<^verbatim>\<open>Infinity\<close> and is written as \<^verbatim>\<open>null\<close>.
\<close>

lemma number_beyond_double_range:
  "number_overflows ''1e400''"
  "\<not> number_overflows ''1.5e3''"
  "\<not> number_overflows ''-0.25E-7''"
  "updateState_json ''inst-A'' ''READY'' None None
       (Holds (JObj [(''inst-B'', JObj [(''diskLimit'', JNum ''1e400'')])]))
     = (Inr (), Holds (JObj [(''inst-B'', JObj [(''diskLimit'', JNull)]),
                             (''inst-A'', JObj [(''state'', JStr ''READY''), (''containerId'', JNull),
                                                (''diskLimit'', JNull)])]))"
  by (simp_all add: updateState_json_object record_json_def number_overflows_def parseInt_def
        strip.simps white_space_def is_digit_def digits_val_def digit_val_def)

text \<open>
  The store as the handlers use it is this store, seen through \<open>file_encodes\<close>: for
  an instance id other than \<^verbatim>\<open>__proto__\<close>, and numbers within the range of a double,
  the two updates complete or throw together and leave corresponding files.
\<close>

lemma encodes_update:
  "encodes fs m \<Longrightarrow>
     encodes (AList.update k (record_json st cid dl) fs)
       (m(k \<mapsto> \<lparr>state = st, containerId = cid, diskLimit = dl\<rparr>))"
  by (simp add: encodes_def update_conv')

lemma store_views_agree:
  assumes "k \<noteq> ''__proto__''" and "file_encodes f g"
    and "\<forall>d. dl = Some d \<longrightarrow> \<bar>d\<bar> < 2 ^ 1024 - 2 ^ 970"
    and "\<forall>v. f = Holds v \<longrightarrow> as_written v = v"
  shows "fst (updateState_json k st cid dl f) = fst (updateState k st cid dl g)
         \<and> file_encodes (snd (updateState_json k st cid dl f)) (snd (updateState k st cid dl g))"
proof (cases g)
  case Absent
  then have "f = No_file" using assms(2) by (cases "(f, g)" rule: file_encodes.cases) auto
  then show ?thesis
    using Absent assms(1) as_written_record [OF assms(3), of st cid]
    by (simp add: updateState_json_no_file updateState_def readStates_def writeStates_def
          encodes_def)
next
  case (Document m)
  then obtain fs where f: "f = Holds (JObj fs)" and e: "encodes fs m"
    using assms(2) by (cases "(f, g)" rule: file_encodes.cases) auto
  from assms(4) f have "map (\<lambda>(k, v). (k, as_written v)) fs = fs" by simp
  then have "map (\<lambda>(k, v). (k, as_written v)) (AList.update k (record_json st cid dl) fs)
               = AList.update k (record_json st cid dl) fs"
    using as_written_record [OF assms(3), of st cid] by (simp add: as_written_update)
  then show ?thesis
    using Document assms(1) f encodes_update [OF e, of k st cid dl]
    by (simp add: updateState_json_object updateState_def readStates_def writeStates_def)
next
  case Unparseable
  then have "f = Garbage" using assms(2) by (cases "(f, g)" rule: file_encodes.cases) auto
  then show ?thesis
    using Unparseable
    by (simp add: updateState_json_def readStates_json_def updateState_def readStates_def)
qed

section \<open>The stats session\<close>












text \<open>
  With a limit of 5 MiB two ticks on the large volume stop the container once: the
  first tick calls \<^verbatim>\<open>stop\<close> and latches, the second only reports.
\<close>

lemma quota_stops_once:
  "setupStatsStreaming (Document sample_document) ''inst-A'' [large_volume_tick, large_volume_tick]
     = [Stop_called,
        Sent_sample \<lparr>volumeSizeMiB = 5000, sample_limit = 5, storageExceeded = True\<rparr>,
        Sent_sample \<lparr>volumeSizeMiB = 5000, sample_limit = 5, storageExceeded = True\<rparr>]"
  by (simp add: setupStatsStreaming_def read_disk_limit_def sample_document_def fetchStats_def
        large_volume_tick_def)

section \<open>The exec session and the log buffer\<close>

lemma lookup_own [simp]: "logs ident = Some b \<Longrightarrow> lookup_logs logs ident = Buffer b"
  by (simp add: lookup_logs_def)

lemma lookup_plain: "plain_name ident \<Longrightarrow> logs ident = None \<Longrightarrow> lookup_logs logs ident = Undefined"
  by (auto simp: plain_name_def lookup_logs_def split: option.splits if_splits)

lemma streamDockerLogs_buffer:
  assumes "plain_name cid \<or> logs cid \<noteq> None"
  shows "\<exists>s. streamDockerLogs cid r opn logs
               = Inr (logs(cid \<mapsto> (case logs cid of None \<Rightarrow> [] | Some b \<Rightarrow> b)), s)
             \<and> attached_to s = cid \<and> stream_live s = (r = None)
             \<and> (r = None \<longrightarrow>
                  frames s = map formatLogMessage (case logs cid of None \<Rightarrow> [] | Some b \<Rightarrow> b))"
proof (cases "logs cid")
  case None
  with assms have "lookup_logs logs cid = Undefined" by (simp add: lookup_plain)
  then show ?thesis using None by (simp add: streamDockerLogs_def Let_def)
next
  case (Some b)
  then have "logs(cid \<mapsto> b) = logs" by (simp add: fun_upd_idem)
  then show ?thesis using Some by (simp add: streamDockerLogs_def Let_def)
qed

lemma exec_step_extends:
  assumes "logs (attached_to s) = Some b"
  shows "\<exists>logs' s' added. exec_step ev (logs, s) = Inr (logs', s')
           \<and> logs' (attached_to s) = Some (b @ added) \<and> attached_to s' = attached_to s"
  using assms by (cases ev) (auto simp: Let_def)

lemma exec_run_extends:
  assumes "logs (attached_to s) = Some b"
  shows "\<exists>logs' s' added. exec_run evs (logs, s) = Inr (logs', s')
           \<and> logs' (attached_to s) = Some (b @ added)"
  using assms
proof (induction evs arbitrary: logs s b)
  case Nil
  then show ?case by simp
next
  case (Cons ev evs)
  from exec_step_extends [of logs s b ev] Cons.prems
  obtain logs1 s1 a1 where st: "exec_step ev (logs, s) = Inr (logs1, s1)"
    and b1: "logs1 (attached_to s) = Some (b @ a1)" and at: "attached_to s1 = attached_to s"
    by blast
  from Cons.IH [of logs1 s1 "b @ a1"] b1 at
  obtain logs2 s2 a2 where "exec_run evs (logs1, s1) = Inr (logs2, s2)"
    and "logs2 (attached_to s) = Some ((b @ a1) @ a2)" by auto
  then show ?case using st by auto
qed

text \<open>
  C8, as stated: the buffer of a container is released when the attached session
  closes.  It is not: a session attaches to a container without a buffer, receives
  one chunk and closes, and the buffer is still there with the chunk in it.
\<close>

theorem log_buffer_outlives_session_counterexample:
  "exec_connection ''c1'' None True [Log_data ''09:00'' ''hello'' True, Ws_close] Map.empty
     = Inr ([''c1'' \<mapsto> [\<lparr>timestamp = ''09:00'', content = ''hello''\<rparr>]],
            \<lparr>attached_to = ''c1'', stream_live = False,
             frames = [formatLogMessage \<lparr>timestamp = ''09:00'', content = ''hello''\<rparr>]\<rparr>)"
  by (simp add: exec_connection_def streamDockerLogs_def lookup_logs_def prototype_functions_def Let_def)

text \<open>
  C8, amended: for a container id that is not the name of a property of
  \<^verbatim>\<open>Object.prototype\<close>, or that has a buffer already, the buffer is created, empty, when
  a session attaches and the container has none (an existing buffer is taken as it
  is); a chunk that arrives on a live log stream is appended to it; closing the
  channel destroys the log stream of the session and leaves the buffer as it is; so
  whatever happens on the connection, nothing throws and the buffer found at the
  attach is still there afterwards, only extended; and the next session that
  attaches is first sent the buffered messages.
\<close>

theorem log_buffer_kept:
  "(plain_name cid \<or> logs cid \<noteq> None \<longrightarrow>
      (\<exists>s. streamDockerLogs cid r opn logs
              = Inr (logs(cid \<mapsto> (case logs cid of None \<Rightarrow> [] | Some b \<Rightarrow> b)), s)))
   \<and> (stream_live s \<and> logs (attached_to s) = Some b \<longrightarrow>
        (\<exists>s'. exec_step (Log_data ts chunk cs) (logs, s)
                = Inr (logs(attached_to s \<mapsto> b @ [\<lparr>timestamp = ts, content = chunk\<rparr>]), s')))
   \<and> exec_step Ws_close (logs, s) = Inr (logs, s\<lparr>stream_live := False\<rparr>)
   \<and> (plain_name cid \<or> logs cid \<noteq> None \<longrightarrow>
        (\<exists>logs' s' added. exec_connection cid r opn evs logs = Inr (logs', s')
           \<and> logs' cid = Some ((case logs cid of None \<Rightarrow> [] | Some b \<Rightarrow> b) @ added)))
   \<and> (logs cid = Some b \<longrightarrow>
        (\<exists>s'. streamDockerLogs cid None opn logs = Inr (logs, s')
           \<and> frames s' = map formatLogMessage b))"
proof (intro conjI impI)
  assume "plain_name cid \<or> logs cid \<noteq> None"
  from streamDockerLogs_buffer [of cid logs r opn] this
  show "\<exists>s. streamDockerLogs cid r opn logs
              = Inr (logs(cid \<mapsto> (case logs cid of None \<Rightarrow> [] | Some b \<Rightarrow> b)), s)"
    by blast
next
  assume "stream_live s \<and> logs (attached_to s) = Some b"
  then show "\<exists>s'. exec_step (Log_data ts chunk cs) (logs, s)
                = Inr (logs(attached_to s \<mapsto> b @ [\<lparr>timestamp = ts, content = chunk\<rparr>]), s')"
    by (simp add: Let_def)
next
  show "exec_step Ws_close (logs, s) = Inr (logs, s\<lparr>stream_live := False\<rparr>)" by simp
next
  assume a: "plain_name cid \<or> logs cid \<noteq> None"
  let ?b0 = "case logs cid of None \<Rightarrow> [] | Some b \<Rightarrow> b"
  from streamDockerLogs_buffer [of cid logs r opn] a
  obtain s1 where s: "streamDockerLogs cid r opn logs = Inr (logs(cid \<mapsto> ?b0), s1)"
    and at: "attached_to s1 = cid" by blast
  from exec_run_extends [of "logs(cid \<mapsto> ?b0)" s1 ?b0 evs] at
  obtain logs' s' added where "exec_run evs (logs(cid \<mapsto> ?b0), s1) = Inr (logs', s')"
    and "logs' cid = Some (?b0 @ added)" by auto
  then show "\<exists>logs' s' added. exec_connection cid r opn evs logs = Inr (logs', s')
           \<and> logs' cid = Some (?b0 @ added)"
    using s by (auto simp: exec_connection_def)
next
  assume b: "logs cid = Some b"
  then have "logs(cid \<mapsto> b) = logs" by (simp add: fun_upd_idem)
  with streamDockerLogs_buffer [of cid logs None opn] b
  show "\<exists>s'. streamDockerLogs cid None opn logs = Inr (logs, s') \<and> frames s' = map formatLogMessage b"
    by auto
qed

theorem log_buffer_kept_witness:
  "plain_name ''c1''
   \<and> (\<exists>logs' s' added.
         exec_connection ''c1'' None True
             [Log_data ''09:00'' ''hello'' True, Ws_close, Log_data ''09:01'' ''late'' True]
             [''c1'' \<mapsto> [\<lparr>timestamp = ''08:59'', content = ''old''\<rparr>]]
           = Inr (logs', s')
         \<and> logs' ''c1'' = Some ([\<lparr>timestamp = ''08:59'', content = ''old''\<rparr>] @ added))
   \<and> (\<exists>s'. exec_connection ''c1'' None True
             [Log_data ''09:00'' ''hello'' True, Ws_close, Log_data ''09:01'' ''late'' True]
             [''c1'' \<mapsto> [\<lparr>timestamp = ''08:59'', content = ''old''\<rparr>]]
           = Inr ([''c1'' \<mapsto> [\<lparr>timestamp = ''08:59'', content = ''old''\<rparr>,
                               \<lparr>timestamp = ''09:00'', content = ''hello''\<rparr>]], s'))"
proof -
  have p: "plain_name ''c1''"
    by (simp add: plain_name_def lookup_logs_def prototype_functions_def)
  from log_buffer_kept
         [where cid = "''c1''" and r = None and opn = True
            and logs = "[''c1'' \<mapsto> [\<lparr>timestamp = ''08:59'', content = ''old''\<rparr>]]"
            and evs = "[Log_data ''09:00'' ''hello'' True, Ws_close, Log_data ''09:01'' ''late'' True]"]
  have "\<exists>logs' s' added.
         exec_connection ''c1'' None True
             [Log_data ''09:00'' ''hello'' True, Ws_close, Log_data ''09:01'' ''late'' True]
             [''c1'' \<mapsto> [\<lparr>timestamp = ''08:59'', content = ''old''\<rparr>]]
           = Inr (logs', s')
         \<and> logs' ''c1'' = Some ([\<lparr>timestamp = ''08:59'', content = ''old''\<rparr>] @ added)"
    by simp
  moreover have "\<exists>s'. exec_connection ''c1'' None True
             [Log_data ''09:00'' ''hello'' True, Ws_close, Log_data ''09:01'' ''late'' True]
             [''c1'' \<mapsto> [\<lparr>timestamp = ''08:59'', content = ''old''\<rparr>]]
           = Inr ([''c1'' \<mapsto> [\<lparr>timestamp = ''08:59'', content = ''old''\<rparr>,
                               \<lparr>timestamp = ''09:00'', content = ''hello''\<rparr>]], s')"
    by (simp add: exec_connection_def streamDockerLogs_def Let_def)
  ultimately show ?thesis using p by blast
qed

text \<open>
  For the name of a function of \<^verbatim>\<open>Object.prototype\<close> no buffer is created: the attach
  throws at \<^verbatim>\<open>forEach\<close> when the function has parameters, and the first chunk throws
  at \<^verbatim>\<open>push\<close> when it has none.
\<close>

lemma attach_to_prototype_name:
  "streamDockerLogs ''constructor'' None True Map.empty
     = Inl (Error ''containerLogs[containerId].forEach is not a function'')"
  "exec_connection ''toString'' None True [Log_data ''09:00'' ''hello'' True] Map.empty
     = Inl (Error ''containerLogs[containerId].push is not a function'')"
  by (simp_all add: exec_connection_def streamDockerLogs_def lookup_logs_def prototype_functions_def
        Let_def)

section \<open>The deployment pipeline\<close>

lemma updateState_ok:
  "f \<noteq> Unparseable \<Longrightarrow>
     updateState k s c d f
       = (Inr (), Document ((records_of f)(k \<mapsto> \<lparr>state = s, containerId = c, diskLimit = d\<rparr>)))"
  by (cases f) (simp_all add: updateState_def readStates_def writeStates_def records_of_def)

lemma send_simps [simp]:
  "response (send st b w) = Some (st, b)"
  "states_at_reply (send st b w) = Some (states_json w)"
  "states_json (send st b w) = states_json w"
  "volume_dirs (send st b w) = volume_dirs w"
  "create_calls (send st b w) = create_calls w"
  "started (send st b w) = started w"
  by (simp_all add: send_def)

lemma on_failure_ok:
  assumes "states_json w \<noteq> Unparseable"
  shows "states_json (on_failure req e c w)
           = Document ((records_of (states_json w))
               (Id' req \<mapsto> \<lparr>state = ''FAILED'', containerId = c, diskLimit = Some (or_zero (Disk req))\<rparr>))"
    and "response w = None \<Longrightarrow> response (on_failure req e c w) = Some (500, Message (message e))"
    and "response w = Some r \<Longrightarrow> response (on_failure req e c w) = Some r"
    and "response w = Some r \<Longrightarrow> states_at_reply (on_failure req e c w) = states_at_reply w"
    and "volume_dirs (on_failure req e c w) = volume_dirs w"
    and "create_calls (on_failure req e c w) = create_calls w"
    and "started (on_failure req e c w) = started w"
  using assms by (simp_all add: on_failure_def updateState_ok Let_def)

lemma on_failure_unparseable:
  assumes "states_json w = Unparseable"
  shows "on_failure req e c w = w"
  using assms by (simp add: on_failure_def updateState_def readStates_def)

lemma on_failure_status:
  assumes "response w = None"
  shows "response (on_failure req e c w) = None
         \<or> response (on_failure req e c w) = Some (500, Message (message e))"
  using assms on_failure_ok(2) [of w req e c] on_failure_unparseable [of w req e c]
  by (cases "states_json w = Unparseable") auto

lemma background_after_reply:
  assumes "states_json w \<noteq> Unparseable" and "response w = Some r"
  shows "response (background out req cid w) = Some r"
    and "states_at_reply (background out req cid w) = states_at_reply w"
    and "create_calls (background out req cid w) = create_calls w"
    and "\<exists>st. (st = ''READY'' \<or> st = ''FAILED'') \<and>
           states_json (background out req cid w)
             = Document ((records_of (states_json w))
                 (Id' req \<mapsto> \<lparr>state = st, containerId = Some cid, diskLimit = Some (or_zero (Disk req))\<rparr>))"
  using assms
  by (auto simp: background_def on_failure_ok updateState_ok Let_def split: option.splits)


lemma deploy_early_failure:
  assumes "response w = None"
    and "mkdir_result out \<noteq> None \<or> states_json w = Unparseable \<or> pull_image out \<noteq> None
         \<or> (\<forall>cid. create_result out = Inr (Some cid) \<longrightarrow> cid = [])"
  shows "response (deploy out req env w) = None
         \<or> (\<exists>msg. response (deploy out req env w) = Some (500, Message msg))"
proof (cases "mkdir_result out")
  case (Some e)
  then show ?thesis using on_failure_status [OF assms(1), of req e None] by (auto simp: deploy_def)
next
  case None
  note mk = this
  let ?w1 = "w\<lparr>volume_dirs := volume_dirs w @ [volumePath (Id' req)]\<rparr>"
  show ?thesis
  proof (cases "states_json w = Unparseable")
    case True
    then show ?thesis
      using mk assms(1)
      by (simp add: deploy_def Let_def updateState_def readStates_def on_failure_def)
  next
    case False
    note ok = this
    let ?f = "Document ((records_of (states_json w))
                (Id' req \<mapsto> \<lparr>state = ''INSTALLING'', containerId = None,
                                  diskLimit = Some (or_zero (Disk req))\<rparr>))"
    let ?w2 = "?w1\<lparr>states_json := ?f\<rparr>"
    have r2: "response ?w2 = None" using assms(1) by simp
    show ?thesis
    proof (cases "pull_image out")
      case (Some e)
      then show ?thesis
        using mk ok on_failure_status [OF r2, of req e None]
        by (auto simp: deploy_def Let_def updateState_ok)
    next
      case None
      note pl = this
      let ?opts = "createContainerOptions (win32 out) req env (volumePath (Id' req))"
      let ?w3 = "?w2\<lparr>create_calls := create_calls ?w2 @ [?opts]\<rparr>"
      have r3: "response ?w3 = None" using assms(1) by simp
      from assms(2) mk ok pl
      have cr: "\<forall>cid. create_result out = Inr (Some cid) \<longrightarrow> cid = []" by simp
      show ?thesis
      proof (cases "create_result out")
        case (Inl e)
        then show ?thesis
          using mk ok pl on_failure_status [OF r3, of req e None]
          by (auto simp: deploy_def Let_def updateState_ok)
      next
        case (Inr ident)
        with cr have "\<not> truthy_str ident" by (cases ident) (auto simp: truthy_str_def)
        then show ?thesis
          using Inr mk ok pl on_failure_status [OF r3, of req "Error ''Container creation failed''" None]
          by (auto simp: deploy_def Let_def updateState_ok)
      qed
    qed
  qed
qed

lemma deploy_accepted:
  assumes "mkdir_result out = None" and "states_json w \<noteq> Unparseable"
    and "pull_image out = None" and "create_result out = Inr (Some cid)" and "cid \<noteq> []"
  shows "response (deploy out req env w) = Some (202, Deployment_started env (Id' req) cid)"
    and "states_at_reply (deploy out req env w)
           = Some (Document ((records_of (states_json w))
                (Id' req \<mapsto> \<lparr>state = ''INSTALLING'', containerId = None,
                                  diskLimit = Some (or_zero (Disk req))\<rparr>)))"
    and "\<exists>st m. (st = ''READY'' \<or> st = ''FAILED'') \<and> states_json (deploy out req env w) = Document m
           \<and> m (Id' req) = Some \<lparr>state = st, containerId = Some cid,
                                    diskLimit = Some (or_zero (Disk req))\<rparr>"
proof -
  let ?f = "Document ((records_of (states_json w))
                (Id' req \<mapsto> \<lparr>state = ''INSTALLING'', containerId = None,
                                  diskLimit = Some (or_zero (Disk req))\<rparr>))"
  let ?opts = "createContainerOptions (win32 out) req env (volumePath (Id' req))"
  let ?w3 = "w\<lparr>volume_dirs := volume_dirs w @ [volumePath (Id' req)], states_json := ?f,
               create_calls := create_calls w @ [?opts]\<rparr>"
  let ?w4 = "send 202 (Deployment_started env (Id' req) cid) ?w3"
  have d: "deploy out req env w = background out req cid ?w4"
    using assms by (simp add: deploy_def Let_def updateState_ok truthy_str_def)
  have p: "states_json ?w4 \<noteq> Unparseable" by simp
  have r: "response ?w4 = Some (202, Deployment_started env (Id' req) cid)" by simp
  show "response (deploy out req env w) = Some (202, Deployment_started env (Id' req) cid)"
    using background_after_reply(1) [OF p r] d by simp
  show "states_at_reply (deploy out req env w) = Some ?f"
    using background_after_reply(2) [OF p r] d by simp
  from background_after_reply(4) [OF p r, of out req cid]
  obtain st where "st = ''READY'' \<or> st = ''FAILED''"
    and "states_json (background out req cid ?w4)
           = Document ((records_of (states_json ?w4))
               (Id' req \<mapsto> \<lparr>state = st, containerId = Some cid,
                                 diskLimit = Some (or_zero (Disk req))\<rparr>))"
    by blast
  then show "\<exists>st m. (st = ''READY'' \<or> st = ''FAILED'') \<and> states_json (deploy out req env w) = Document m
           \<and> m (Id' req) = Some \<lparr>state = st, containerId = Some cid,
                                    diskLimit = Some (or_zero (Disk req))\<rparr>"
    using d by auto
qed


lemma first_invalid_iff:
  "first_invalid pbs \<noteq> None
     \<longleftrightarrow> (\<exists>entries b. pbs = Some entries \<and> b \<in> set (concat (map snd entries)) \<and> invalid_port b)"
  by (cases pbs) (auto simp: first_invalid_def find_None_iff)

lemma first_invalid_Some:
  "first_invalid pbs = Some b \<Longrightarrow> invalid_port b"
  by (cases pbs) (auto simp: first_invalid_def find_Some_iff)

lemma pull_image_all_well: "pull_image all_well = None"
  by code_simp

lemma parseInt_examples:
  "parseInt ''0'' = Some 0" "parseInt ''65536'' = Some 65536"
  "parseInt ''1'' = Some 1" "parseInt ''65535'' = Some 65535" "parseInt ''70000'' = Some 70000"
  "parseInt ''18080'' = Some 18080"
  by (simp_all add: parseInt_def strip.simps white_space_def is_digit_def digits_val_def digit_val_def)

text \<open>
  White space before the number is skipped, whatever white space of the language it
  is: a port written after a no-break space (U+00A0) is accepted.
\<close>

lemma port_after_no_break_space:
  shows "parseInt ([CHR 0xC2, CHR 0xA0] @ ''80'') = Some 80"
    and "parseInt ([CHR 0xE2, CHR 0x80, CHR 0xA8, CHR 0x20] @ ''443 '') = Some 443"
    and "\<not> invalid_port \<lparr>HostPort = Some ([CHR 0xC2, CHR 0xA0] @ ''80'')\<rparr>"
    and "invalid_port \<lparr>HostPort = Some ([CHR 0xC2] @ ''80'')\<rparr>"
  by (simp_all add: invalid_port_def host_port_text_def parseInt_def strip.simps white_space_def
        is_digit_def digits_val_def digit_val_def)

text \<open>
  C5: a binding is rejected exactly when its \<^verbatim>\<open>HostPort\<close> does not parse, as
  \<^verbatim>\<open>parseInt(HostPort, 10)\<close> parses it, to an integer from 1 to 65535.  When some binding of the request is rejected, the handler answers
  400 and the state document, the volume directories, the create calls and the
  started containers are what they were; when none is, the handler never answers
  400.  The ports 0 and 65536 are rejected, 1 and 65535 are accepted.
\<close>

theorem invalid_port_rejected_first:
  "(invalid_port b \<longleftrightarrow> (\<forall>p. parseInt (host_port_text b) = Some p \<longrightarrow> p < 1 \<or> 65535 < p))
   \<and> ((\<exists>entries b. PortBindings req = Some entries \<and> b \<in> set (concat (map snd entries))
          \<and> invalid_port b) \<longrightarrow>
        (\<exists>msg. response (createContainer out req w) = Some (400, Message msg))
        \<and> states_json (createContainer out req w) = states_json w
        \<and> volume_dirs (createContainer out req w) = volume_dirs w
        \<and> create_calls (createContainer out req w) = create_calls w
        \<and> started (createContainer out req w) = started w)
   \<and> (response w = None
        \<and> (\<forall>entries b. PortBindings req = Some entries \<and> b \<in> set (concat (map snd entries))
              \<longrightarrow> \<not> invalid_port b) \<longrightarrow>
        (\<forall>body. response (createContainer out req w) \<noteq> Some (400, body)))
   \<and> invalid_port \<lparr>HostPort = Some ''0''\<rparr> \<and> invalid_port \<lparr>HostPort = Some ''65536''\<rparr>
   \<and> \<not> invalid_port \<lparr>HostPort = Some ''1''\<rparr> \<and> \<not> invalid_port \<lparr>HostPort = Some ''65535''\<rparr>"
proof -
  have a: "invalid_port b \<longleftrightarrow> (\<forall>p. parseInt (host_port_text b) = Some p \<longrightarrow> p < 1 \<or> 65535 < p)"
    by (simp add: invalid_port_def split: option.split)
  have b: "(\<exists>msg. response (createContainer out req w) = Some (400, Message msg))
        \<and> states_json (createContainer out req w) = states_json w
        \<and> volume_dirs (createContainer out req w) = volume_dirs w
        \<and> create_calls (createContainer out req w) = create_calls w
        \<and> started (createContainer out req w) = started w"
    if "\<exists>entries b. PortBindings req = Some entries \<and> b \<in> set (concat (map snd entries))
          \<and> invalid_port b"
  proof -
    from that have "first_invalid (PortBindings req) \<noteq> None" by (simp only: first_invalid_iff)
    then obtain x where "first_invalid (PortBindings req) = Some x" by auto
    then show ?thesis by (simp add: createContainer_def)
  qed
  have c: "response (createContainer out req w) \<noteq> Some (400, body)"
    if "response w = None"
      and "\<forall>entries b. PortBindings req = Some entries \<and> b \<in> set (concat (map snd entries))
              \<longrightarrow> \<not> invalid_port b" for body
  proof -
    from that(2) have n: "first_invalid (PortBindings req) = None"
      using first_invalid_iff [of "PortBindings req"] by blast
    show ?thesis
    proof (cases "js_entries (parse_variables (variables req))")
      case None
      then show ?thesis using n that(1) by (simp add: createContainer_def)
    next
      case (Some entries)
      let ?env = "(case Env req of None \<Rightarrow> [] | Some e \<Rightarrow> e) @ objectToEnv entries
                    @ [''PRIMARY_PORT='' @ primaryPort (PortBindings req)]"
      have d: "createContainer out req w = deploy out req ?env w"
        using n Some by (simp add: createContainer_def)
      show ?thesis
      proof (cases "mkdir_result out \<noteq> None \<or> states_json w = Unparseable \<or> pull_image out \<noteq> None
         \<or> (\<forall>cid. create_result out = Inr (Some cid) \<longrightarrow> cid = [])")
        case True
        from deploy_early_failure [OF that(1) True, of req ?env] d show ?thesis by auto
      next
        case False
        then obtain cid where "mkdir_result out = None" "states_json w \<noteq> Unparseable"
          "pull_image out = None" "create_result out = Inr (Some cid)" "cid \<noteq> []" by auto
        from deploy_accepted(1) [OF this, of req ?env] d show ?thesis by simp
      qed
    qed
  qed
  have e: "invalid_port \<lparr>HostPort = Some ''0''\<rparr> \<and> invalid_port \<lparr>HostPort = Some ''65536''\<rparr>
   \<and> \<not> invalid_port \<lparr>HostPort = Some ''1''\<rparr> \<and> \<not> invalid_port \<lparr>HostPort = Some ''65535''\<rparr>"
    by (simp add: invalid_port_def host_port_text_def parseInt_examples)
  from a b c e show ?thesis by blast
qed

theorem invalid_port_rejected_first_witness:
  "response (createContainer all_well
       (sample_request\<lparr>PortBindings := Some [(''80/tcp'', [\<lparr>HostPort = Some ''70000''\<rparr>])]\<rparr>) fresh_world)
     = Some (400, Message ''Invalid port: 70000'')
   \<and> states_json (createContainer all_well
       (sample_request\<lparr>PortBindings := Some [(''80/tcp'', [\<lparr>HostPort = Some ''70000''\<rparr>])]\<rparr>) fresh_world)
     = Absent
   \<and> volume_dirs (createContainer all_well
       (sample_request\<lparr>PortBindings := Some [(''80/tcp'', [\<lparr>HostPort = Some ''70000''\<rparr>])]\<rparr>) fresh_world)
     = []
   \<and> (\<exists>body. response (createContainer all_well sample_request fresh_world) = Some (202, body))"
proof -
  let ?bad = "sample_request\<lparr>PortBindings := Some [(''80/tcp'', [\<lparr>HostPort = Some ''70000''\<rparr>])]\<rparr>"
  have i: "invalid_port \<lparr>HostPort = Some ''70000''\<rparr>"
    by (simp add: invalid_port_def host_port_text_def parseInt_examples)
  then have "\<exists>entries b. PortBindings ?bad = Some entries \<and> b \<in> set (concat (map snd entries))
          \<and> invalid_port b"
    by simp
  with invalid_port_rejected_first [of _ ?bad all_well fresh_world]
  have "states_json (createContainer all_well ?bad fresh_world) = states_json fresh_world"
    and "volume_dirs (createContainer all_well ?bad fresh_world) = volume_dirs fresh_world"
    by blast+
  moreover have "response (createContainer all_well ?bad fresh_world)
                   = Some (400, Message ''Invalid port: 70000'')"
    using i by (simp add: createContainer_def first_invalid_def host_port_text_def)
  moreover have "\<exists>body. response (createContainer all_well sample_request fresh_world) = Some (202, body)"
  proof -
    have v: "\<not> invalid_port \<lparr>HostPort = Some ''18080''\<rparr>"
      by (simp add: invalid_port_def host_port_text_def parseInt_examples)
    have "createContainer all_well sample_request fresh_world
            = deploy all_well sample_request [''NAME=svc'', ''PRIMARY_PORT=18080''] fresh_world"
      using v by (simp add: createContainer_def first_invalid_def sample_request_def parse_variables_def
            objectToEnv_def primaryPort_def truthy_str_def)
    moreover have "mkdir_result all_well = None" "create_result all_well = Inr (Some ''4f2d9a1c77aa'')"
      by (simp_all add: all_well_def)
    moreover have "states_json fresh_world \<noteq> Unparseable" by (simp add: fresh_world_def)
    ultimately show ?thesis
      using deploy_accepted(1) [of all_well fresh_world "''4f2d9a1c77aa''" sample_request] pull_image_all_well
      by simp
  qed
  ultimately show ?thesis by (simp add: fresh_world_def)
qed







text \<open>
  A failed pull in the handler of \<^verbatim>\<open>routes/Deployment.js\<close>: the pull fails when
  \<^verbatim>\<open>docker.pull\<close> rejects or when the drain ends in an error; the handler then answers
  500 with the message, commits \<open>FAILED\<close> with a null container id, and has issued no
  create call and started nothing.
\<close>

lemma pull_image_fails_iff:
  "pull_image out \<noteq> None
     \<longleftrightarrow> (\<exists>e. pull_result out = Inl e)
         \<or> (\<exists>stream. pull_result out = Inr stream \<and> finished_err (followProgress stream False) \<noteq> None)"
  by (cases "pull_result out") (auto simp: pull_image_def)

lemma pull_failure_commits_failed:
  assumes "first_invalid (PortBindings req) = None"
    and "js_entries (parse_variables (variables req)) \<noteq> None"
    and "mkdir_result out = None" and "states_json w \<noteq> Unparseable" and "response w = None"
    and "pull_image out = Some e"
  shows "response (createContainer out req w) = Some (500, Message (message e))"
    and "\<exists>m. states_json (createContainer out req w) = Document m
           \<and> m (Id' req) = Some \<lparr>state = ''FAILED'', containerId = None,
                                  diskLimit = Some (or_zero (Disk req))\<rparr>"
    and "create_calls (createContainer out req w) = create_calls w"
    and "started (createContainer out req w) = started w"
proof -
  obtain entries where v: "js_entries (parse_variables (variables req)) = Some entries"
    using assms(2) by auto
  let ?env = "(case Env req of None \<Rightarrow> [] | Some e \<Rightarrow> e) @ objectToEnv entries
                @ [''PRIMARY_PORT='' @ primaryPort (PortBindings req)]"
  let ?w2 = "w\<lparr>volume_dirs := volume_dirs w @ [volumePath (Id' req)],
              states_json := Document ((records_of (states_json w))
                (Id' req \<mapsto> \<lparr>state = ''INSTALLING'', containerId = None,
                                  diskLimit = Some (or_zero (Disk req))\<rparr>))\<rparr>"
  have d: "createContainer out req w = on_failure req e None ?w2"
    using assms v by (simp add: createContainer_def deploy_def Let_def updateState_ok)
  have p: "states_json ?w2 \<noteq> Unparseable" by simp
  have r: "response ?w2 = None" using assms(5) by simp
  show "response (createContainer out req w) = Some (500, Message (message e))"
    using on_failure_ok(2) [OF p r] d by simp
  show "\<exists>m. states_json (createContainer out req w) = Document m
           \<and> m (Id' req) = Some \<lparr>state = ''FAILED'', containerId = None,
                                  diskLimit = Some (or_zero (Disk req))\<rparr>"
    using on_failure_ok(1) [OF p, of req e None] d by simp
  show "create_calls (createContainer out req w) = create_calls w"
    using on_failure_ok(6) [OF p, of req e None] d by simp
  show "started (createContainer out req w) = started w"
    using on_failure_ok(7) [OF p, of req e None] d by simp
qed

text \<open>
  C2 says that a failed pull ends in a 500, a state record committed as \<open>FAILED\<close> and
  no container.  The handler of \<^verbatim>\<open>routes/Deployment.js\<close> does that (the lemma above).
  The older handler answers the 500 from the \<^verbatim>\<open>catch\<close> around the pull and returns
  there: for the image \<open>no/such:image\<close>, whose pull the runtime rejects, no container
  is created, but the record stays \<open>INSTALLING\<close>.
\<close>

theorem legacy_pull_failure_stays_installing:
  "response (createContainer_legacy (all_well\<lparr>pull_result := Inl (Error ''pull access denied'')\<rparr>)
       (sample_request\<lparr>Image := ''no/such:image''\<rparr>) fresh_world)
     = Some (500, Message ''pull access denied'')
   \<and> (case states_json (createContainer_legacy
                (all_well\<lparr>pull_result := Inl (Error ''pull access denied'')\<rparr>)
                (sample_request\<lparr>Image := ''no/such:image''\<rparr>) fresh_world) of
         Document m \<Rightarrow> map_option state (m ''inst-A'')
       | _ \<Rightarrow> None) = Some ''INSTALLING''
   \<and> create_calls (createContainer_legacy
          (all_well\<lparr>pull_result := Inl (Error ''pull access denied'')\<rparr>)
          (sample_request\<lparr>Image := ''no/such:image''\<rparr>) fresh_world) = []"
  by (simp add: createContainer_legacy_def all_well_def sample_request_def fresh_world_def
        legacy_primaryPort_def host_port_text_def updateState_Absent pull_image_def Let_def)

text \<open>The same request through the handler of \<^verbatim>\<open>routes/Deployment.js\<close>.\<close>

lemma fixed_pull_failure_sample:
  "response (createContainer (all_well\<lparr>pull_result := Inl (Error ''pull access denied'')\<rparr>)
       (sample_request\<lparr>Image := ''no/such:image''\<rparr>) fresh_world)
     = Some (500, Message ''pull access denied'')
   \<and> (case states_json (createContainer
                (all_well\<lparr>pull_result := Inl (Error ''pull access denied'')\<rparr>)
                (sample_request\<lparr>Image := ''no/such:image''\<rparr>) fresh_world) of
         Document m \<Rightarrow> map_option state (m ''inst-A'')
       | _ \<Rightarrow> None) = Some ''FAILED''
   \<and> create_calls (createContainer
          (all_well\<lparr>pull_result := Inl (Error ''pull access denied'')\<rparr>)
          (sample_request\<lparr>Image := ''no/such:image''\<rparr>) fresh_world) = []"
proof -
  let ?out = "all_well\<lparr>pull_result := Inl (Error ''pull access denied'')\<rparr>"
  let ?req = "sample_request\<lparr>Image := ''no/such:image''\<rparr>"
  have v: "\<not> invalid_port \<lparr>HostPort = Some ''18080''\<rparr>"
    by (simp add: invalid_port_def host_port_text_def parseInt_examples)
  have a: "first_invalid (PortBindings ?req) = None"
    using v by (simp add: first_invalid_def sample_request_def)
  have b: "js_entries (parse_variables (variables ?req)) \<noteq> None"
    by (simp add: sample_request_def parse_variables_def)
  have c: "mkdir_result ?out = None" "pull_image ?out = Some (Error ''pull access denied'')"
    by (simp_all add: all_well_def pull_image_def)
  have d: "states_json fresh_world \<noteq> Unparseable" "response fresh_world = None"
    "create_calls fresh_world = []"
    by (simp_all add: fresh_world_def)
  have i: "Id' ?req = ''inst-A''" by (simp add: sample_request_def)
  note p = pull_failure_commits_failed [OF a b c(1) d(1) d(2) c(2)]
  from p(2) obtain m where "states_json (createContainer ?out ?req fresh_world) = Document m"
    "map_option state (m ''inst-A'') = Some ''FAILED''" by (auto simp: i)
  then show ?thesis using p(1) p(3) d(3) by simp
qed


end
